theory Spec2Isabelle
  imports Complex_Main "HOL-Library.Multiset" "HOL-Library.Sublist"
begin

section \<open>Card model (types/card.ts)\<close>

text \<open>
  The string-literal unions \<open>Suit\<close> and \<open>Rank\<close> are datatypes; \<open>SUITS\<close> and \<open>RANKS\<close> list
  them in the order of the source. Strings are lists of 8-bit characters; a character
  outside ASCII is held as its UTF-8 bytes, as the source files store it.
\<close>

datatype Suit = hearts | diamonds | clubs | spades

datatype Rank = RA | R2 | R3 | R4 | R5 | R6 | R7 | R8 | R9 | R10 | RJ | RQ | RK

definition SUITS :: "Suit list" where
  "SUITS = [hearts, diamonds, clubs, spades]"

definition RANKS :: "Rank list" where
  "RANKS = [RA, R2, R3, R4, R5, R6, R7, R8, R9, R10, RJ, RQ, RK]"

text \<open>The string each literal of the unions stands for.\<close>

fun suit_str :: "Suit \<Rightarrow> string" where
  "suit_str hearts = ''hearts''"
| "suit_str diamonds = ''diamonds''"
| "suit_str clubs = ''clubs''"
| "suit_str spades = ''spades''"

fun rank_str :: "Rank \<Rightarrow> string" where
  "rank_str RA = ''A''"
| "rank_str R2 = ''2''"
| "rank_str R3 = ''3''"
| "rank_str R4 = ''4''"
| "rank_str R5 = ''5''"
| "rank_str R6 = ''6''"
| "rank_str R7 = ''7''"
| "rank_str R8 = ''8''"
| "rank_str R9 = ''9''"
| "rank_str R10 = ''10''"
| "rank_str RJ = ''J''"
| "rank_str RQ = ''Q''"
| "rank_str RK = ''K''"

record Card =
  suit :: Suit
  rank :: Rank
  value_c :: int
  display :: string
  id_c :: string

record Deck =
  availableCards :: "Card list"
  usedCards :: "Card list"
  totalCards :: nat

text \<open>\<open>SUIT_SYMBOLS\<close>: the UTF-8 bytes of U+2665, U+2666, U+2663 and U+2660.\<close>

fun SUIT_SYMBOLS :: "Suit \<Rightarrow> string" where
  "SUIT_SYMBOLS hearts = [CHR 0xE2, CHR 0x99, CHR 0xA5]"
| "SUIT_SYMBOLS diamonds = [CHR 0xE2, CHR 0x99, CHR 0xA6]"
| "SUIT_SYMBOLS clubs = [CHR 0xE2, CHR 0x99, CHR 0xA3]"
| "SUIT_SYMBOLS spades = [CHR 0xE2, CHR 0x99, CHR 0xA0]"

fun SUIT_ABBREVIATIONS :: "Suit \<Rightarrow> string" where
  "SUIT_ABBREVIATIONS hearts = ''H''"
| "SUIT_ABBREVIATIONS diamonds = ''D''"
| "SUIT_ABBREVIATIONS clubs = ''C''"
| "SUIT_ABBREVIATIONS spades = ''S''"

fun CARD_VALUES :: "Rank \<Rightarrow> int" where
  "CARD_VALUES RA = 14"
| "CARD_VALUES R2 = 2"
| "CARD_VALUES R3 = 3"
| "CARD_VALUES R4 = 4"
| "CARD_VALUES R5 = 5"
| "CARD_VALUES R6 = 6"
| "CARD_VALUES R7 = 7"
| "CARD_VALUES R8 = 8"
| "CARD_VALUES R9 = 9"
| "CARD_VALUES R10 = 10"
| "CARD_VALUES RJ = 11"
| "CARD_VALUES RQ = 12"
| "CARD_VALUES RK = 13"

text \<open>
  The codes the library throws as \<open>new Error(code)\<close> or reports in a validation error.
  Two more values stand for what the run time does where the source relies on an index or
  a search that finds nothing: \<open>TypeError\<close> is the exception raised by reading a property
  of \<open>undefined\<close> or \<open>null\<close>, and \<open>UNDEFINED_VALUE\<close> marks a result that would hold
  \<open>undefined\<close> or \<open>null\<close> in the place of a card or of an evaluation (the source asserts
  with \<open>!\<close> that this does not happen).
\<close>

datatype ErrorCode =
    INVALID_SUIT | INVALID_RANK | INSUFFICIENT_CARDS | DUPLICATE_CARD
  | INVALID_VALUE | INVALID_DISPLAY | INVALID_ID
  | INVALID_PLAYER_HAND_SIZE | INVALID_COMMUNITY_CARDS
  | INVALID_CARD_STRING | TOO_MANY_CARDS | CALCULATION_FAILED
  | TypeError | UNDEFINED_VALUE

record ValidationError =
  code :: ErrorCode
  message :: string
  field :: "string option"

record ValidationResult =
  isValid :: bool
  errors :: "ValidationError list"

section \<open>Card utilities (card-utils.ts)\<close>

text \<open>Decimal rendering of a number inside a template literal.\<close>

fun show_nat :: "nat \<Rightarrow> string" where
  "show_nat n =
     (if n < 10 then [''0123456789'' ! n]
      else show_nat (n div 10) @ [''0123456789'' ! (n mod 10)])"

declare show_nat.simps [simp del]

definition show_int :: "int \<Rightarrow> string" where
  "show_int i = (if i < 0 then ''-'' @ show_nat (nat (- i)) else show_nat (nat i))"

definition createCard :: "Suit \<Rightarrow> Rank \<Rightarrow> ErrorCode + Card" where
  "createCard s r =
     (if s \<notin> set SUITS then Inl INVALID_SUIT
      else if r \<notin> set RANKS then Inl INVALID_RANK
      else Inr \<lparr> suit = s, rank = r, value_c = CARD_VALUES r,
                 display = rank_str r @ SUIT_SYMBOLS s,
                 id_c = rank_str r @ SUIT_ABBREVIATIONS s \<rparr>)"

text \<open>The two nested \<open>for\<close> loops of \<open>createDeck\<close>: a throwing \<open>createCard\<close> aborts them.\<close>

fun collect :: "(ErrorCode + 'a) list \<Rightarrow> ErrorCode + 'a list" where
  "collect [] = Inr []"
| "collect (x # xs) =
     (case x of Inl e \<Rightarrow> Inl e
      | Inr a \<Rightarrow> (case collect xs of Inl e \<Rightarrow> Inl e | Inr as \<Rightarrow> Inr (a # as)))"

definition createDeck :: "ErrorCode + Deck" where
  "createDeck =
     (case collect (concat (map (\<lambda>s. map (\<lambda>r. createCard s r) RANKS) SUITS)) of
        Inl e \<Rightarrow> Inl e
      | Inr cs \<Rightarrow> Inr \<lparr> availableCards = cs, usedCards = [], totalCards = 52 \<rparr>)"

text \<open>
  A number of the run time, as far as its order and its integer part go: a finite number
  (every finite double is a rational), \<open>NaN\<close>, or one of the two infinities.
  \<open>greaterThan_js n k\<close> is \<open>n > k\<close> for an array length \<open>k\<close>, false when \<open>n\<close> is \<open>NaN\<close>.
  \<open>ToIntegerOrInfinity\<close> drops the fraction of a finite number and turns \<open>NaN\<close> into 0.
\<close>

datatype jsnum = Num rat | NaN | Infinity | NegInfinity

definition greaterThan_js :: "jsnum \<Rightarrow> nat \<Rightarrow> bool" where
  "greaterThan_js n k =
     (case n of Num q \<Rightarrow> q > of_nat k | NaN \<Rightarrow> False | Infinity \<Rightarrow> True
      | NegInfinity \<Rightarrow> False)"

datatype IntegerOrInfinity = Integer int | PlusInfinity | MinusInfinity

definition truncate_num :: "rat \<Rightarrow> int" where
  "truncate_num q = (if 0 \<le> q then \<lfloor>q\<rfloor> else \<lceil>q\<rceil>)"

definition ToIntegerOrInfinity :: "jsnum \<Rightarrow> IntegerOrInfinity" where
  "ToIntegerOrInfinity n =
     (case n of Num q \<Rightarrow> Integer (truncate_num q) | NaN \<Rightarrow> Integer 0
      | Infinity \<Rightarrow> PlusInfinity | NegInfinity \<Rightarrow> MinusInfinity)"

text \<open>
  \<open>Array.prototype.slice\<close>: each argument goes through \<open>ToIntegerOrInfinity\<close>, a negative
  index counts from the end, and both ends are clamped to the array.
\<close>

definition slice_from :: "'a list \<Rightarrow> jsnum \<Rightarrow> int" where
  "slice_from xs s =
     (let n = int (length xs)
      in case ToIntegerOrInfinity s of
           MinusInfinity \<Rightarrow> 0
         | Integer r \<Rightarrow> if r < 0 then max (n + r) 0 else min r n
         | PlusInfinity \<Rightarrow> n)"

definition slice2 :: "'a list \<Rightarrow> jsnum \<Rightarrow> jsnum \<Rightarrow> 'a list" where
  "slice2 xs s e =
     (let k = slice_from xs s; f = slice_from xs e
      in take (nat (f - k)) (drop (nat k) xs))"

definition slice1 :: "'a list \<Rightarrow> jsnum \<Rightarrow> 'a list" where
  "slice1 xs s = drop (nat (slice_from xs s)) xs"

record DealResult =
  dealtCards :: "Card list"
  remainingDeck :: Deck

definition dealCards :: "Deck \<Rightarrow> jsnum \<Rightarrow> ErrorCode + DealResult" where
  "dealCards deck cnt =
     (if greaterThan_js cnt (length (availableCards deck)) then Inl INSUFFICIENT_CARDS
      else
        let dealt = slice2 (availableCards deck) (Num 0) cnt;
            remainingAvailable = slice1 (availableCards deck) cnt;
            newUsedCards = usedCards deck @ dealt
        in Inr \<lparr> dealtCards = dealt,
                  remainingDeck = \<lparr> availableCards = remainingAvailable,
                                    usedCards = newUsedCards, totalCards = 52 \<rparr> \<rparr>)"

text \<open>
  \<open>dealCards\<close> once more, over a store of objects, to see what it writes. An address is
  an index of the store; an array and a deck are objects of it, the deck holding the
  addresses of its two arrays. \<open>slice\<close>, the spread \<open>[...a, ...b]\<close> and an object literal
  each allocate a new object; the function assigns to no property and to no element of an
  array. Reading a deck that is not in the store is the \<open>TypeError\<close> of a property read
  on \<open>undefined\<close>.
\<close>

datatype Obj = CardArray "Card list" | DeckObj nat nat nat

type_synonym Store = "Obj list"

definition alloc :: "Store \<Rightarrow> Obj \<Rightarrow> nat \<times> Store" where
  "alloc s ob = (length s, s @ [ob])"

definition readArray :: "Store \<Rightarrow> nat \<Rightarrow> Card list option" where
  "readArray s a =
     (if a < length s then (case s ! a of CardArray cs \<Rightarrow> Some cs | _ \<Rightarrow> None) else None)"

definition readDeck :: "Store \<Rightarrow> nat \<Rightarrow> Deck option" where
  "readDeck s d =
     (if d < length s
      then (case s ! d of
              DeckObj a u t \<Rightarrow>
                (case (readArray s a, readArray s u) of
                   (Some av, Some us) \<Rightarrow>
                     Some \<lparr> availableCards = av, usedCards = us, totalCards = t \<rparr>
                 | _ \<Rightarrow> None)
            | _ \<Rightarrow> None)
      else None)"

record DealRefs =
  dealtCardsRef :: nat
  remainingDeckRef :: nat

definition readResult :: "Store \<Rightarrow> DealRefs \<Rightarrow> DealResult option" where
  "readResult s r =
     (case (readArray s (dealtCardsRef r), readDeck s (remainingDeckRef r)) of
        (Some dealt, Some rest) \<Rightarrow> Some \<lparr> dealtCards = dealt, remainingDeck = rest \<rparr>
      | _ \<Rightarrow> None)"

definition dealCards_store :: "Store \<Rightarrow> nat \<Rightarrow> jsnum \<Rightarrow> (ErrorCode + DealRefs) \<times> Store" where
  "dealCards_store s deckRef cnt =
     (case readDeck s deckRef of
        None \<Rightarrow> (Inl TypeError, s)
      | Some deck \<Rightarrow>
          if greaterThan_js cnt (length (availableCards deck)) then (Inl INSUFFICIENT_CARDS, s)
          else
            let dealt = slice2 (availableCards deck) (Num 0) cnt;
                (dealtRef, s1) = alloc s (CardArray dealt);
                (remainingRef, s2) = alloc s1 (CardArray (slice1 (availableCards deck) cnt));
                (usedRef, s3) = alloc s2 (CardArray (usedCards deck @ dealt));
                (newDeckRef, s4) = alloc s3 (DeckObj remainingRef usedRef 52)
            in (Inr \<lparr> dealtCardsRef = dealtRef, remainingDeckRef = newDeckRef \<rparr>, s4))"

text \<open>
  \<open>parseCard\<close>. \<open>charAt\<close> yields the empty string past the end; \<open>toUpperCase\<close> is modelled
  on the ASCII letters; \<open>suitMap\<close> is the object literal of the source, and the cast
  \<open>as Rank\<close> followed by \<open>RANKS.includes(rank)\<close> is the search of \<open>RANKS\<close> for the token.
\<close>

definition charAt :: "string \<Rightarrow> nat \<Rightarrow> string" where
  "charAt s i = (if i < length s then [s ! i] else [])"

definition toUpperCase :: "string \<Rightarrow> string" where
  "toUpperCase s =
     map (\<lambda>c. case map_of (zip ''abcdefghijklmnopqrstuvwxyz'' ''ABCDEFGHIJKLMNOPQRSTUVWXYZ'') c of
                 None \<Rightarrow> c | Some u \<Rightarrow> u) s"

definition startsWith :: "string \<Rightarrow> string \<Rightarrow> bool" where
  "startsWith s p = (take (length p) s = p)"

definition suitMap :: "string \<Rightarrow> Suit option" where
  "suitMap = map_of [(''H'', hearts), (''D'', diamonds), (''C'', clubs), (''S'', spades)]"

definition rank_of_token :: "string \<Rightarrow> Rank option" where
  "rank_of_token t = find (\<lambda>r. rank_str r = t) RANKS"

definition parseCard :: "string \<Rightarrow> ErrorCode + Card" where
  "parseCard cardString =
     (if cardString = [] \<or> length cardString < 2 then Inl INVALID_CARD_STRING
      else
        let (rankTok, suitChar) =
              (if startsWith cardString ''10'' then (''10'', charAt cardString 2)
               else (charAt cardString 0, charAt cardString 1))
        in case suitMap (toUpperCase suitChar) of
             None \<Rightarrow> Inl INVALID_CARD_STRING
           | Some s \<Rightarrow>
               (case rank_of_token rankTok of
                  None \<Rightarrow> Inl INVALID_CARD_STRING
                | Some r \<Rightarrow> createCard s r))"

subsection \<open>Validation (card-utils.ts, validation.ts)\<close>

text \<open>One round of the loop of \<open>validateCards\<close>: the errors a card adds, given the ids seen.\<close>

definition cardErrors :: "string set \<Rightarrow> Card \<Rightarrow> ValidationError list" where
  "cardErrors seenIds crd =
     (if id_c crd \<in> seenIds
      then [\<lparr> code = DUPLICATE_CARD,
              message = ''Card already exists: '' @ display crd,
              field = Some (id_c crd) \<rparr>]
      else [])
     @ (if suit crd \<notin> set SUITS
        then [\<lparr> code = INVALID_SUIT,
                message = ''Invalid suit: '' @ suit_str (suit crd),
                field = Some (id_c crd) \<rparr>]
        else [])
     @ (if rank crd \<notin> set RANKS
        then [\<lparr> code = INVALID_RANK,
                message = ''Invalid rank: '' @ rank_str (rank crd),
                field = Some (id_c crd) \<rparr>]
        else [])
     @ (if value_c crd \<noteq> CARD_VALUES (rank crd)
        then [\<lparr> code = INVALID_VALUE,
                message = ''Incorrect value for '' @ rank_str (rank crd) @ '': expected ''
                  @ show_int (CARD_VALUES (rank crd)) @ '', got '' @ show_int (value_c crd),
                field = Some (id_c crd) \<rparr>]
        else [])
     @ (let expectedDisplay = rank_str (rank crd) @ SUIT_SYMBOLS (suit crd)
        in if display crd \<noteq> expectedDisplay
           then [\<lparr> code = INVALID_DISPLAY,
                   message = ''Incorrect display format: expected '' @ expectedDisplay
                     @ '', got '' @ display crd,
                   field = Some (id_c crd) \<rparr>]
           else [])
     @ (let expectedId = rank_str (rank crd) @ SUIT_ABBREVIATIONS (suit crd)
        in if id_c crd \<noteq> expectedId
           then [\<lparr> code = INVALID_ID,
                   message = ''Incorrect ID format: expected '' @ expectedId
                     @ '', got '' @ id_c crd,
                   field = Some (id_c crd) \<rparr>]
           else [])"

fun validateCards_loop ::
  "Card list \<Rightarrow> string set \<Rightarrow> ValidationError list \<Rightarrow> ValidationError list" where
  "validateCards_loop [] seenIds errs = errs"
| "validateCards_loop (crd # cards) seenIds errs =
     validateCards_loop cards (insert (id_c crd) seenIds) (errs @ cardErrors seenIds crd)"

definition validateCards :: "Card list \<Rightarrow> ValidationResult" where
  "validateCards cards =
     (let errs = validateCards_loop cards {} []
      in \<lparr> isValid = (length errs = 0), errors = errs \<rparr>)"

text \<open>
  What a property read on an object literal yields: a number of the literal itself, or
  what the literal inherits from \<open>Object.prototype\<close>, a built-in function or, for
  \<open>__proto__\<close>, the prototype object. \<open>Object_prototype\<close> lists the twelve properties of
  \<open>Object.prototype\<close> with the name each function carries.
\<close>

datatype PropertyValue = PNumber nat | PFunction string | PObject

definition Object_prototype :: "(string \<times> PropertyValue) list" where
  "Object_prototype =
     [(''constructor'', PFunction ''Object''),
      (''__defineGetter__'', PFunction ''__defineGetter__''),
      (''__defineSetter__'', PFunction ''__defineSetter__''),
      (''hasOwnProperty'', PFunction ''hasOwnProperty''),
      (''__lookupGetter__'', PFunction ''__lookupGetter__''),
      (''__lookupSetter__'', PFunction ''__lookupSetter__''),
      (''isPrototypeOf'', PFunction ''isPrototypeOf''),
      (''propertyIsEnumerable'', PFunction ''propertyIsEnumerable''),
      (''toString'', PFunction ''toString''),
      (''valueOf'', PFunction ''valueOf''),
      (''__proto__'', PObject),
      (''toLocaleString'', PFunction ''toLocaleString'')]"

text \<open>
  \<open>stageRequirements[stage]\<close>: the object literal of \<open>validatePokerHand\<close> is searched at
  its own four keys, then along its prototype; \<open>None\<close> is \<open>undefined\<close>.
\<close>

definition stageRequirements :: "string \<Rightarrow> PropertyValue option" where
  "stageRequirements =
     map_of ([(''pre-flop'', PNumber 0), (''flop'', PNumber 3), (''turn'', PNumber 4),
              (''river'', PNumber 5)] @ Object_prototype)"

text \<open>\<open>n !== v\<close> for a number \<open>n\<close>: a value that is not a number is never equal to it.\<close>

definition strictNotEqual :: "nat \<Rightarrow> PropertyValue \<Rightarrow> bool" where
  "strictNotEqual n v = (case v of PNumber m \<Rightarrow> n \<noteq> m | _ \<Rightarrow> True)"

text \<open>A property value inside a template literal.\<close>

definition show_property :: "PropertyValue \<Rightarrow> string" where
  "show_property v =
     (case v of
        PNumber m \<Rightarrow> show_nat m
      | PFunction f \<Rightarrow> ''function '' @ f @ ''() { [native code] }''
      | PObject \<Rightarrow> ''[object Object]'')"

definition validatePokerHand :: "Card list \<Rightarrow> Card list \<Rightarrow> string \<Rightarrow> ValidationResult" where
  "validatePokerHand playerHand communityCards stage =
     (let allCards = playerHand @ communityCards;
          cardValidation = validateCards allCards;
          errs1 = (if \<not> isValid cardValidation then errors cardValidation else []);
          errs2 = errs1 @
            (if stage \<noteq> ''pre-flop'' \<and> length playerHand \<noteq> 2
             then [\<lparr> code = INVALID_PLAYER_HAND_SIZE,
                     message = ''Player hand must have exactly 2 cards, got ''
                       @ show_nat (length playerHand),
                     field = None \<rparr>]
             else []);
          errs3 = errs2 @
            (case stageRequirements stage of
               None \<Rightarrow> []
             | Some expectedCommunityCount \<Rightarrow>
                 if strictNotEqual (length communityCards) expectedCommunityCount
                 then [\<lparr> code = INVALID_COMMUNITY_CARDS,
                         message = stage @ '' stage requires ''
                           @ show_property expectedCommunityCount @ '' community cards, got ''
                           @ show_nat (length communityCards),
                         field = None \<rparr>]
                 else [])
      in \<lparr> isValid = (length errs3 = 0), errors = errs3 \<rparr>)"

definition validateHandForEvaluation :: "Card list \<Rightarrow> ValidationResult" where
  "validateHandForEvaluation cards =
     (let errs1 =
            (if length cards < 5
             then [\<lparr> code = INSUFFICIENT_CARDS,
                     message = ''Hand evaluation requires at least 5 cards, got ''
                       @ show_nat (length cards),
                     field = None \<rparr>]
             else []);
          errs2 = errs1 @
            (if length cards > 7
             then [\<lparr> code = TOO_MANY_CARDS,
                     message = ''Hand evaluation supports maximum 7 cards, got ''
                       @ show_nat (length cards),
                     field = None \<rparr>]
             else []);
          cardValidation = validateCards cards;
          errs3 = errs2 @ (if \<not> isValid cardValidation then errors cardValidation else [])
      in \<lparr> isValid = (length errs3 = 0), errors = errs3 \<rparr>)"

text \<open>\<open>throw new Error(validation.errors[0].code)\<close>, the step both entry points share.\<close>

definition firstErrorCode :: "ValidationResult \<Rightarrow> ErrorCode" where
  "firstErrorCode validation =
     (case errors validation of [] \<Rightarrow> TypeError | firstError # _ \<Rightarrow> code firstError)"

section \<open>Hand evaluation (types/poker.ts, evaluation.ts)\<close>

datatype HandStrength =
    HIGH_CARD | PAIR | TWO_PAIR | THREE_OF_A_KIND | STRAIGHT
  | FLUSH | FULL_HOUSE | FOUR_OF_A_KIND | STRAIGHT_FLUSH | ROYAL_FLUSH

text \<open>The number of each member of the enum; the source compares strengths as numbers.\<close>

fun strength_num :: "HandStrength \<Rightarrow> nat" where
  "strength_num HIGH_CARD = 0"
| "strength_num PAIR = 1"
| "strength_num TWO_PAIR = 2"
| "strength_num THREE_OF_A_KIND = 3"
| "strength_num STRAIGHT = 4"
| "strength_num FLUSH = 5"
| "strength_num FULL_HOUSE = 6"
| "strength_num FOUR_OF_A_KIND = 7"
| "strength_num STRAIGHT_FLUSH = 8"
| "strength_num ROYAL_FLUSH = 9"

record HandEvaluation =
  bestHand :: "Card list"
  handStrength :: HandStrength
  kickers :: "Card list"
  description :: string

text \<open>
  \<open>[...cards].sort((a, b) => b.value - a.value)\<close>: the sort of the run time is stable, and
  so is \<open>sort_key\<close>; cards of equal value keep their order.
\<close>

definition sortDesc :: "Card list \<Rightarrow> Card list" where
  "sortDesc cards = sort_key (\<lambda>c. - value_c c) cards"

text \<open>
  \<open>countRanks\<close> and \<open>countSuits\<close> build an object by \<open>counts[k] = (counts[k] || 0) + 1\<close>;
  the object is the list of its entries in the order the keys were first written.
\<close>

fun bump :: "'k \<Rightarrow> ('k \<times> nat) list \<Rightarrow> ('k \<times> nat) list" where
  "bump k [] = [(k, 1)]"
| "bump k ((k', n) # kvs) = (if k = k' then (k', n + 1) # kvs else (k', n) # bump k kvs)"

definition countRanks :: "Card list \<Rightarrow> (Rank \<times> nat) list" where
  "countRanks cards = foldl (\<lambda>counts card. bump (rank card) counts) [] cards"

definition countSuits :: "Card list \<Rightarrow> (Suit \<times> nat) list" where
  "countSuits cards = foldl (\<lambda>counts card. bump (suit card) counts) [] cards"

text \<open>
  \<open>Object.keys\<close> lists the keys that are array indices first, in ascending order, and the
  other keys after them in the order of their creation. The ranks \<open>2\<close> to \<open>10\<close> are such
  indices; \<open>A\<close>, \<open>J\<close>, \<open>Q\<close>, \<open>K\<close> and the four suit names are not.
\<close>

fun rank_index :: "Rank \<Rightarrow> nat option" where
  "rank_index R2 = Some 2"
| "rank_index R3 = Some 3"
| "rank_index R4 = Some 4"
| "rank_index R5 = Some 5"
| "rank_index R6 = Some 6"
| "rank_index R7 = Some 7"
| "rank_index R8 = Some 8"
| "rank_index R9 = Some 9"
| "rank_index R10 = Some 10"
| "rank_index r = None"

definition Object_keys_rank :: "(Rank \<times> nat) list \<Rightarrow> Rank list" where
  "Object_keys_rank obj =
     sort_key (\<lambda>r. case rank_index r of None \<Rightarrow> 0 | Some i \<Rightarrow> i)
       (filter (\<lambda>r. rank_index r \<noteq> None) (map fst obj))
     @ filter (\<lambda>r. rank_index r = None) (map fst obj)"

definition Object_keys_suit :: "(Suit \<times> nat) list \<Rightarrow> Suit list" where
  "Object_keys_suit obj = map fst obj"

text \<open>\<open>Object.keys(rankCounts).find(rank => rankCounts[rank] === n)\<close>.\<close>

definition findRankWithCount :: "(Rank \<times> nat) list \<Rightarrow> nat \<Rightarrow> Rank option" where
  "findRankWithCount rankCounts n =
     find (\<lambda>r. map_of rankCounts r = Some n) (Object_keys_rank rankCounts)"

fun getCombinations :: "'a list \<Rightarrow> nat \<Rightarrow> 'a list list" where
  "getCombinations cards 0 = [[]]"
| "getCombinations [] (Suc k) = []"
| "getCombinations (first # rest) (Suc k) =
     getCombinations rest (Suc k) @ map (\<lambda>combo. first # combo) (getCombinations rest k)"

definition checkFlush :: "Card list \<Rightarrow> ErrorCode + HandEvaluation option" where
  "checkFlush cards =
     (let suitCounts = countSuits cards
      in case find (\<lambda>s. case map_of suitCounts s of None \<Rightarrow> False | Some n \<Rightarrow> n \<ge> 5)
                (Object_keys_suit suitCounts) of
           None \<Rightarrow> Inr None
         | Some flushSuit \<Rightarrow>
             let flushCards = take 5 (filter (\<lambda>c. suit c = flushSuit) cards)
             in (case flushCards of
                   [] \<Rightarrow> Inl TypeError
                 | c0 # _ \<Rightarrow>
                     Inr (Some \<lparr> bestHand = flushCards, handStrength = FLUSH,
                                  kickers = drop 1 flushCards,
                                  description = ''Flush, '' @ display c0 @ '' high'' \<rparr>)))"

definition checkStraight :: "Card list \<Rightarrow> ErrorCode + HandEvaluation option" where
  "checkStraight cards =
     (let uniqueValues = sort_key (\<lambda>v. - v) (remdups (map value_c cards))
      in case find (\<lambda>i. uniqueValues ! i - uniqueValues ! (i + 4) = 4)
                [0 ..< length uniqueValues - 4] of
           Some i \<Rightarrow>
             let straightCards =
                   take 5 (filter (\<lambda>c. value_c c \<ge> uniqueValues ! (i + 4)
                                      \<and> value_c c \<le> uniqueValues ! i) cards)
             in (case straightCards of
                   [] \<Rightarrow> Inl TypeError
                 | c0 # _ \<Rightarrow>
                     Inr (Some \<lparr> bestHand = straightCards, handStrength = STRAIGHT,
                                  kickers = [],
                                  description = ''Straight, '' @ display c0 @ '' high'' \<rparr>))
         | None \<Rightarrow>
             let hasAce = list_ex (\<lambda>c. rank c = RA) cards;
                 hasTwo = list_ex (\<lambda>c. rank c = R2) cards;
                 hasThree = list_ex (\<lambda>c. rank c = R3) cards;
                 hasFour = list_ex (\<lambda>c. rank c = R4) cards;
                 hasFive = list_ex (\<lambda>c. rank c = R5) cards
             in if hasAce \<and> hasTwo \<and> hasThree \<and> hasFour \<and> hasFive
                then (case those (map (\<lambda>r. find (\<lambda>c. rank c = r) cards) [R5, R4, R3, R2, RA]) of
                        None \<Rightarrow> Inl UNDEFINED_VALUE
                      | Some wheelCards \<Rightarrow>
                          Inr (Some \<lparr> bestHand = wheelCards, handStrength = STRAIGHT,
                                       kickers = [],
                                       description = ''Straight, 5 high (wheel)'' \<rparr>))
                else Inr None)"

definition checkRoyalFlush :: "Card list \<Rightarrow> ErrorCode + HandEvaluation option" where
  "checkRoyalFlush cards =
     (case checkFlush cards of
        Inl e \<Rightarrow> Inl e
      | Inr None \<Rightarrow> Inr None
      | Inr (Some flushResult) \<Rightarrow>
          let ranks = map rank cards;
              isRoyal = list_all (\<lambda>r. r \<in> set ranks) [RA, RK, RQ, RJ, R10]
          in if isRoyal
             then (case cards of
                     [] \<Rightarrow> Inl TypeError
                   | c0 # _ \<Rightarrow>
                       Inr (Some \<lparr> bestHand = cards, handStrength = ROYAL_FLUSH,
                                    kickers = [],
                                    description = ''Royal Flush of '' @ suit_str (suit c0) \<rparr>))
             else Inr None)"

definition checkStraightFlush :: "Card list \<Rightarrow> ErrorCode + HandEvaluation option" where
  "checkStraightFlush cards =
     (case checkFlush cards of
        Inl e \<Rightarrow> Inl e
      | Inr flushResult \<Rightarrow>
          (case checkStraight cards of
             Inl e \<Rightarrow> Inl e
           | Inr straightResult \<Rightarrow>
               if flushResult \<noteq> None \<and> straightResult \<noteq> None
               then (case cards of
                       [] \<Rightarrow> Inl TypeError
                     | c0 # _ \<Rightarrow>
                         Inr (Some \<lparr> bestHand = cards, handStrength = STRAIGHT_FLUSH,
                                      kickers = [],
                                      description = ''Straight Flush, '' @ display c0 @ '' high'' \<rparr>))
               else Inr None))"

definition checkFourOfAKind :: "Card list \<Rightarrow> ErrorCode + HandEvaluation option" where
  "checkFourOfAKind cards =
     (let rankCounts = countRanks cards
      in case findRankWithCount rankCounts 4 of
           None \<Rightarrow> Inr None
         | Some fourOfAKindRank \<Rightarrow>
             let fourCards = filter (\<lambda>c. rank c = fourOfAKindRank) cards
             in (case find (\<lambda>c. rank c \<noteq> fourOfAKindRank) cards of
                   None \<Rightarrow> Inl UNDEFINED_VALUE
                 | Some kicker \<Rightarrow>
                     Inr (Some \<lparr> bestHand = fourCards @ [kicker],
                                  handStrength = FOUR_OF_A_KIND,
                                  kickers = [kicker],
                                  description = ''Four of a Kind, '' @ rank_str fourOfAKindRank
                                    @ ''s'' \<rparr>)))"

definition checkFullHouse :: "Card list \<Rightarrow> ErrorCode + HandEvaluation option" where
  "checkFullHouse cards =
     (let rankCounts = countRanks cards
      in case (findRankWithCount rankCounts 3, findRankWithCount rankCounts 2) of
           (Some threeOfAKindRank, Some pairRank) \<Rightarrow>
             let threeCards = filter (\<lambda>c. rank c = threeOfAKindRank) cards;
                 pairCards = filter (\<lambda>c. rank c = pairRank) cards
             in Inr (Some \<lparr> bestHand = threeCards @ pairCards,
                             handStrength = FULL_HOUSE,
                             kickers = [],
                             description = ''Full House, '' @ rank_str threeOfAKindRank
                               @ ''s over '' @ rank_str pairRank @ ''s'' \<rparr>)
         | _ \<Rightarrow> Inr None)"

definition checkThreeOfAKind :: "Card list \<Rightarrow> ErrorCode + HandEvaluation option" where
  "checkThreeOfAKind cards =
     (let rankCounts = countRanks cards
      in case findRankWithCount rankCounts 3 of
           None \<Rightarrow> Inr None
         | Some threeOfAKindRank \<Rightarrow>
             let threeCards = filter (\<lambda>c. rank c = threeOfAKindRank) cards;
                 kickers = take 2 (sortDesc (filter (\<lambda>c. rank c \<noteq> threeOfAKindRank) cards))
             in Inr (Some \<lparr> bestHand = threeCards @ kickers,
                             handStrength = THREE_OF_A_KIND,
                             kickers = kickers,
                             description = ''Three of a Kind, '' @ rank_str threeOfAKindRank
                               @ ''s'' \<rparr>))"

text \<open>
  The comparator of \<open>pairs.sort\<close> reads the value of the first card of each rank; every
  rank compared is a key of \<open>countRanks(cards)\<close>, so that card exists.
\<close>

definition firstValue :: "Card list \<Rightarrow> Rank \<Rightarrow> int" where
  "firstValue cards r = (case find (\<lambda>c. rank c = r) cards of None \<Rightarrow> 0 | Some c \<Rightarrow> value_c c)"

definition checkTwoPair :: "Card list \<Rightarrow> ErrorCode + HandEvaluation option" where
  "checkTwoPair cards =
     (let rankCounts = countRanks cards;
          pairs = filter (\<lambda>r. map_of rankCounts r = Some 2) (Object_keys_rank rankCounts)
      in if length pairs \<ge> 2
         then
           (let sortedPairs = sort_key (\<lambda>r. - firstValue cards r) pairs
            in case sortedPairs of
                 p0 # p1 # _ \<Rightarrow>
                   let higherPair = filter (\<lambda>c. rank c = p0) cards;
                       lowerPair = filter (\<lambda>c. rank c = p1) cards
                   in (case sortDesc (filter (\<lambda>c. rank c \<notin> set sortedPairs) cards) of
                         [] \<Rightarrow> Inl UNDEFINED_VALUE
                       | kicker # _ \<Rightarrow>
                           Inr (Some \<lparr> bestHand = higherPair @ lowerPair @ [kicker],
                                        handStrength = TWO_PAIR,
                                        kickers = [kicker],
                                        description = ''Two Pair, '' @ rank_str p0 @ ''s and ''
                                          @ rank_str p1 @ ''s'' \<rparr>))
               | _ \<Rightarrow> Inl UNDEFINED_VALUE)
         else Inr None)"

definition checkOnePair :: "Card list \<Rightarrow> ErrorCode + HandEvaluation option" where
  "checkOnePair cards =
     (let rankCounts = countRanks cards
      in case findRankWithCount rankCounts 2 of
           None \<Rightarrow> Inr None
         | Some pairRank \<Rightarrow>
             let pairCards = filter (\<lambda>c. rank c = pairRank) cards;
                 kickers = take 3 (sortDesc (filter (\<lambda>c. rank c \<noteq> pairRank) cards))
             in Inr (Some \<lparr> bestHand = pairCards @ kickers,
                             handStrength = PAIR,
                             kickers = kickers,
                             description = ''Pair of '' @ rank_str pairRank @ ''s'' \<rparr>))"

text \<open>\<open>result = check(sortedCards); if (result) return result\<close>, then the rest.\<close>

definition orElse ::
  "ErrorCode + HandEvaluation option \<Rightarrow> ErrorCode + HandEvaluation \<Rightarrow> ErrorCode + HandEvaluation" where
  "orElse r rest =
     (case r of Inl e \<Rightarrow> Inl e | Inr None \<Rightarrow> rest | Inr (Some result) \<Rightarrow> Inr result)"

definition highCard :: "Card list \<Rightarrow> ErrorCode + HandEvaluation" where
  "highCard sortedCards =
     (case sortedCards of
        [] \<Rightarrow> Inl TypeError
      | c0 # _ \<Rightarrow>
          Inr \<lparr> bestHand = sortedCards, handStrength = HIGH_CARD,
                kickers = drop 1 sortedCards,
                description = ''High Card, '' @ display c0 @ '' high'' \<rparr>)"

definition evaluateFiveCardHand :: "Card list \<Rightarrow> ErrorCode + HandEvaluation" where
  "evaluateFiveCardHand cards =
     (let sortedCards = sortDesc cards
      in orElse (checkRoyalFlush sortedCards)
        (orElse (checkStraightFlush sortedCards)
        (orElse (checkFourOfAKind sortedCards)
        (orElse (checkFullHouse sortedCards)
        (orElse (checkFlush sortedCards)
        (orElse (checkStraight sortedCards)
        (orElse (checkThreeOfAKind sortedCards)
        (orElse (checkTwoPair sortedCards)
        (orElse (checkOnePair sortedCards)
        (highCard sortedCards))))))))))"

text \<open>\<open>hand.kickers[i]?.value || 0\<close>: past the end of the kickers the value is 0.\<close>

definition kickerValue :: "Card list \<Rightarrow> nat \<Rightarrow> int" where
  "kickerValue ks i = (if i < length ks then value_c (ks ! i) else 0)"

definition compareHands :: "HandEvaluation \<Rightarrow> HandEvaluation \<Rightarrow> int" where
  "compareHands hand1 hand2 =
     (if handStrength hand1 \<noteq> handStrength hand2
      then int (strength_num (handStrength hand1)) - int (strength_num (handStrength hand2))
      else
        (case find (\<lambda>i. kickerValue (kickers hand1) i \<noteq> kickerValue (kickers hand2) i)
                [0 ..< max (length (kickers hand1)) (length (kickers hand2))] of
           Some i \<Rightarrow> kickerValue (kickers hand1) i - kickerValue (kickers hand2) i
         | None \<Rightarrow> 0))"

text \<open>The loop of \<open>findBestFiveCardHand\<close> over the combinations; \<open>bestSoFar\<close> is its variable \<open>bestHand\<close>.\<close>

fun bestOf :: "Card list list \<Rightarrow> HandEvaluation option \<Rightarrow> ErrorCode + HandEvaluation option" where
  "bestOf [] bestSoFar = Inr bestSoFar"
| "bestOf (combo # combos) bestSoFar =
     (case evaluateFiveCardHand combo of
        Inl e \<Rightarrow> Inl e
      | Inr evaluation \<Rightarrow>
          bestOf combos
            (case bestSoFar of
               None \<Rightarrow> Some evaluation
             | Some best \<Rightarrow>
                 if strength_num (handStrength evaluation) > strength_num (handStrength best)
                 then Some evaluation
                 else if handStrength evaluation = handStrength best
                 then (if compareHands evaluation best > 0 then Some evaluation else Some best)
                 else Some best))"

definition findBestFiveCardHand :: "Card list \<Rightarrow> ErrorCode + HandEvaluation" where
  "findBestFiveCardHand cards =
     (case bestOf (getCombinations cards 5) None of
        Inl e \<Rightarrow> Inl e
      | Inr None \<Rightarrow> Inl UNDEFINED_VALUE
      | Inr (Some best) \<Rightarrow> Inr best)"

definition evaluatePokerHand :: "Card list \<Rightarrow> ErrorCode + HandEvaluation" where
  "evaluatePokerHand cards =
     (if length cards < 5 then Inl INSUFFICIENT_CARDS
      else if length cards = 5 then evaluateFiveCardHand cards
      else findBestFiveCardHand cards)"

subsection \<open>The entry point of poker-engine.ts\<close>

definition evaluateHand :: "Card list \<Rightarrow> ErrorCode + HandEvaluation" where
  "evaluateHand cards =
     (let validation = validateHandForEvaluation cards
      in if \<not> isValid validation then Inl (firstErrorCode validation)
         else evaluatePokerHand cards)"

section \<open>Remaining cards and simulated deals (deck.ts)\<close>

definition getRemainingCards :: "Card list \<Rightarrow> ErrorCode + Card list" where
  "getRemainingCards knownCards =
     (case createDeck of
        Inl e \<Rightarrow> Inl e
      | Inr fullDeck \<Rightarrow>
          let knownIds = set (map id_c knownCards)
          in Inr (filter (\<lambda>crd. id_c crd \<notin> knownIds) (availableCards fullDeck)))"

text \<open>
  \<open>shuffleDeck\<close> draws from \<open>Math.random\<close>; the source of randomness is a parameter
  \<open>rnd\<close>, the result of its \<open>k\<close>-th call, and the number of calls made is passed along.
  \<open>Math.random\<close> returns a number in \<open>[0, 1)\<close>, which keeps \<open>j\<close> at most \<open>i\<close>.
\<close>

fun shuffle_loop :: "(nat \<Rightarrow> rat) \<Rightarrow> nat \<Rightarrow> Card list \<Rightarrow> nat \<Rightarrow> Card list \<times> nat" where
  "shuffle_loop rnd 0 shuffledCards k = (shuffledCards, k)"
| "shuffle_loop rnd (Suc i') shuffledCards k =
     (let i = Suc i';
          j = nat \<lfloor>rnd k * of_nat (i + 1)\<rfloor>;
          swapped = (if i < length shuffledCards \<and> j < length shuffledCards
                     then shuffledCards[i := shuffledCards ! j, j := shuffledCards ! i]
                     else shuffledCards)
      in shuffle_loop rnd i' swapped (k + 1))"

definition shuffleDeck :: "(nat \<Rightarrow> rat) \<Rightarrow> Deck \<Rightarrow> nat \<Rightarrow> Deck \<times> nat" where
  "shuffleDeck rnd deck k =
     (let (shuffledCards, k') =
            shuffle_loop rnd (length (availableCards deck) - 1) (availableCards deck) k
      in (deck\<lparr> availableCards := shuffledCards \<rparr>, k'))"

text \<open>
  At run time \<open>numSimulations\<close> holds whatever the caller passed: a number or a string.
  \<open>ToNumber\<close> is the conversion that \<open>i < numSimulations\<close> and \<open>count / numSimulations\<close>
  apply to it. It is modelled for the strings made of decimal digits (the empty string is
  0); every other string, such as the name of a stage, is not a number (\<open>None\<close>).
\<close>

datatype jsval = JNum nat | JStr string

definition digitValue :: "char \<Rightarrow> nat" where
  "digitValue c = (case map_of (zip ''0123456789'' [0 ..< 10]) c of None \<Rightarrow> 0 | Some d \<Rightarrow> d)"

definition ToNumber :: "jsval \<Rightarrow> nat option" where
  "ToNumber v =
     (case v of
        JNum n \<Rightarrow> Some n
      | JStr s \<Rightarrow>
          if list_all (\<lambda>c. c \<in> set ''0123456789'') s
          then Some (foldl (\<lambda>acc c. acc * 10 + digitValue c) 0 s)
          else None)"

fun simulate_loop ::
  "(nat \<Rightarrow> rat) \<Rightarrow> Card list \<Rightarrow> Card list \<Rightarrow> nat \<Rightarrow> nat \<Rightarrow> Card list list
     \<Rightarrow> ErrorCode + Card list list" where
  "simulate_loop rnd knownCards available 0 k simulations = Inr simulations"
| "simulate_loop rnd knownCards available (Suc n) k simulations =
     (let simulationDeck = \<lparr> availableCards = available, usedCards = knownCards,
                              totalCards = 52 \<rparr>;
          (shuffled, k') = shuffleDeck rnd simulationDeck k;
          neededCards = 7 - int (length knownCards)
      in if neededCards > 0
         then (case dealCards shuffled
                      (Num (of_int (min neededCards (int (length (availableCards shuffled)))))) of
                 Inl e \<Rightarrow> Inl e
               | Inr dealt \<Rightarrow>
                   simulate_loop rnd knownCards available n k'
                     (simulations @ [knownCards @ dealtCards dealt]))
         else simulate_loop rnd knownCards available n k' (simulations @ [knownCards]))"

definition simulateDeal :: "(nat \<Rightarrow> rat) \<Rightarrow> Card list \<Rightarrow> jsval \<Rightarrow> ErrorCode + Card list list" where
  "simulateDeal rnd knownCards numSimulations =
     (case getRemainingCards knownCards of
        Inl e \<Rightarrow> Inl e
      | Inr available \<Rightarrow>
          simulate_loop rnd knownCards available
            (case ToNumber numSimulations of None \<Rightarrow> 0 | Some n \<Rightarrow> n) 0 [])"

section \<open>Probability estimation (probability.ts)\<close>

text \<open>
  Numbers are rationals: a decimal literal of the source is the rational it writes, and
  the arithmetic is exact. \<open>calculationTime\<close> and \<open>timestamp\<close>, read from the clock, are
  left out of the results.
\<close>

record ProbabilityResult =
  handType :: HandStrength
  probability :: jsnum
  percentage :: jsnum
  odds :: string
  occurrences :: int
  totalOutcomes :: jsval

text \<open>The values \<open>handType\<close> takes in \<open>for (let handType = 0; handType <= 9; handType++)\<close>.\<close>

definition handTypes :: "HandStrength list" where
  "handTypes = [HIGH_CARD, PAIR, TWO_PAIR, THREE_OF_A_KIND, STRAIGHT,
                FLUSH, FULL_HOUSE, FOUR_OF_A_KIND, STRAIGHT_FLUSH, ROYAL_FLUSH]"

text \<open>
  \<open>toFixed(1)\<close>: the nearest multiple of a tenth, the larger one at a tie, written with
  one decimal. (From \<open>10^21\<close> on the run time writes an exponent instead; no probability
  the estimator produces gives such odds.) The numbers of the model are exact rationals
  where the run time has binary doubles: a quotient within a rounding error of a tie can
  round the other way there.
\<close>

definition toFixed1 :: "rat \<Rightarrow> string" where
  "toFixed1 x =
     (let n = nat \<lfloor>\<bar>x\<bar> * 10 + 1 / 2\<rfloor>
      in (if x < 0 then ''-'' else '''') @ show_nat (n div 10) @ ''.'' @ show_nat (n mod 10))"

text \<open>
  \<open>formatOdds\<close>. The string returned for probability 0 is the one the source file holds:
  the characters U+00E2, U+02C6, U+017E (bytes C3 A2, CB 86, C5 BE) followed by \<open>:1\<close>.
\<close>

definition formatOdds :: "jsnum \<Rightarrow> string" where
  "formatOdds p =
     (case p of
        Num q \<Rightarrow>
          if q = 0 then [CHR 0xC3, CHR 0xA2, CHR 0xCB, CHR 0x86, CHR 0xC5, CHR 0xBE] @ '':1''
          else if q = 1 then ''1:1''
          else toFixed1 ((1 - q) / q) @ '':1''
      | NaN \<Rightarrow> ''NaN:1''
      | Infinity \<Rightarrow> ''NaN:1''
      | NegInfinity \<Rightarrow> ''NaN:1'')"

definition times100 :: "jsnum \<Rightarrow> jsnum" where
  "times100 p =
     (case p of Num q \<Rightarrow> Num (q * 100) | NaN \<Rightarrow> NaN | Infinity \<Rightarrow> Infinity
      | NegInfinity \<Rightarrow> NegInfinity)"

definition getBaseProbabilities :: "HandStrength \<Rightarrow> rat" where
  "getBaseProbabilities h =
     (case h of
        HIGH_CARD \<Rightarrow> 501177 / 1000000
      | PAIR \<Rightarrow> 422569 / 1000000
      | TWO_PAIR \<Rightarrow> 47539 / 1000000
      | THREE_OF_A_KIND \<Rightarrow> 21128 / 1000000
      | STRAIGHT \<Rightarrow> 3925 / 1000000
      | FLUSH \<Rightarrow> 1965 / 1000000
      | FULL_HOUSE \<Rightarrow> 1441 / 1000000
      | FOUR_OF_A_KIND \<Rightarrow> 240 / 1000000
      | STRAIGHT_FLUSH \<Rightarrow> 15 / 1000000
      | ROYAL_FLUSH \<Rightarrow> 2 / 1000000)"

text \<open>
  \<open>adjustProbabilitiesForHand\<close>. The two counting objects are built as in \<open>countRanks\<close>;
  of their values only how many equal 2, 3 or 4 and the largest are used, so the order of
  \<open>Object.values\<close> does not matter. \<open>Math.max\<close> of no values is minus infinity, which
  chooses the same factor 1 as the 0 of the fold.
\<close>

definition adjustProbabilitiesForHand ::
  "(HandStrength \<Rightarrow> rat) \<Rightarrow> Card list \<Rightarrow> (HandStrength \<Rightarrow> rat)" where
  "adjustProbabilitiesForHand baseProbabilities knownCards =
     (let adjusted = (\<lambda>h. 0);
          ranks = map rank knownCards;
          suits = map suit knownCards;
          rankCounts = foldl (\<lambda>counts r. bump r counts) [] ranks;
          suitCounts = foldl (\<lambda>counts s. bump s counts) [] suits;
          pairCount = length (filter (\<lambda>n. n = 2) (map snd rankCounts));
          tripCount = length (filter (\<lambda>n. n = 3) (map snd rankCounts));
          quadCount = length (filter (\<lambda>n. n = 4) (map snd rankCounts))
      in if quadCount > 0 then adjusted(FOUR_OF_A_KIND := 1)
         else if tripCount > 0
         then adjusted(HIGH_CARD := 0, PAIR := 0, THREE_OF_A_KIND := 6 / 10,
                FULL_HOUSE := 35 / 100, FOUR_OF_A_KIND := 5 / 100)
         else if pairCount \<ge> 2
         then adjusted(HIGH_CARD := 0, PAIR := 0, TWO_PAIR := 7 / 10,
                FULL_HOUSE := 25 / 100, THREE_OF_A_KIND := 3 / 100, FOUR_OF_A_KIND := 2 / 100)
         else if pairCount = 1
         then adjusted(HIGH_CARD := 0, PAIR := 18 / 100, TWO_PAIR := 23 / 100,
                THREE_OF_A_KIND := 12 / 100, STRAIGHT := 4 / 100, FLUSH := 2 / 100,
                FULL_HOUSE := 25 / 1000, FOUR_OF_A_KIND := 2 / 1000,
                STRAIGHT_FLUSH := 1 / 10000, ROYAL_FLUSH := 1 / 1000000)
         else
           (let maxSuitCount = foldl max 0 (map snd suitCounts);
                sortedValues = sort (remdups (map value_c knownCards));
                straightDraw =
                  length (filter (\<lambda>i. sortedValues ! (i + 1) - sortedValues ! i = 1)
                            [0 ..< length sortedValues - 1]);
                drawn = adjusted(
                  HIGH_CARD := baseProbabilities HIGH_CARD,
                  PAIR := baseProbabilities PAIR,
                  TWO_PAIR := baseProbabilities TWO_PAIR,
                  THREE_OF_A_KIND := baseProbabilities THREE_OF_A_KIND,
                  STRAIGHT := baseProbabilities STRAIGHT * (if straightDraw \<ge> 3 then 3 else 1),
                  FLUSH := baseProbabilities FLUSH
                    * (if maxSuitCount \<ge> 4 then 8 else if maxSuitCount \<ge> 3 then 2 else 1),
                  FULL_HOUSE := baseProbabilities FULL_HOUSE,
                  FOUR_OF_A_KIND := baseProbabilities FOUR_OF_A_KIND,
                  STRAIGHT_FLUSH := baseProbabilities STRAIGHT_FLUSH,
                  ROYAL_FLUSH := baseProbabilities ROYAL_FLUSH);
                total = foldl (\<lambda>sum prob. sum + prob) 0 (map drawn handTypes)
            in if total > 0 then (\<lambda>h. drawn h / total) else drawn))"

definition createProbabilityResults ::
  "(HandStrength \<Rightarrow> rat) \<Rightarrow> nat \<Rightarrow> ProbabilityResult list" where
  "createProbabilityResults probabilities totalOut =
     map (\<lambda>h. let p = probabilities h;
                  occ = \<lfloor>p * of_nat totalOut + 1 / 2\<rfloor>
              in \<lparr> handType = h, probability = Num p, percentage = times100 (Num p),
                    odds = formatOdds (Num p), occurrences = occ,
                    totalOutcomes = JNum totalOut \<rparr>)
       handTypes"

definition calculateUsingLookup :: "Card list \<Rightarrow> Card list \<Rightarrow> ProbabilityResult list" where
  "calculateUsingLookup playerHand communityCards =
     (let knownCards = playerHand @ communityCards;
          totalKnownCards = length knownCards;
          baseProbabilities =
            (if totalKnownCards \<ge> 2
             then adjustProbabilitiesForHand getBaseProbabilities knownCards
             else getBaseProbabilities)
      in createProbabilityResults baseProbabilities 1000)"

text \<open>\<open>count / numSimulations\<close>, the divisor converted by \<open>ToNumber\<close>.\<close>

definition divideCount :: "nat \<Rightarrow> jsval \<Rightarrow> jsnum" where
  "divideCount cnt numSimulations =
     (case ToNumber numSimulations of
        None \<Rightarrow> NaN
      | Some n \<Rightarrow>
          if n = 0 then (if cnt = 0 then NaN else Infinity)
          else Num (of_nat cnt / of_nat n))"

definition calculateUsingSimulation ::
  "(nat \<Rightarrow> rat) \<Rightarrow> Card list \<Rightarrow> Card list \<Rightarrow> jsval \<Rightarrow> ErrorCode + ProbabilityResult list" where
  "calculateUsingSimulation rnd playerHand communityCards numSimulations =
     (let knownCards = playerHand @ communityCards
      in case simulateDeal rnd knownCards numSimulations of
           Inl e \<Rightarrow> Inl e
         | Inr simulations \<Rightarrow>
             let handCounts =
                   foldl (\<lambda>counts simulatedCards.
                            case evaluatePokerHand simulatedCards of
                              Inl e \<Rightarrow> counts
                            | Inr evaluation \<Rightarrow>
                                counts(handStrength evaluation :=
                                         counts (handStrength evaluation) + 1))
                     (\<lambda>h. 0) simulations
             in Inr (map (\<lambda>h. let cnt = handCounts h;
                                  p = divideCount cnt numSimulations
                              in \<lparr> handType = h, probability = p, percentage = times100 p,
                                    odds = formatOdds p, occurrences = int cnt,
                                    totalOutcomes = numSimulations \<rparr>)
                       handTypes))"

text \<open>
  \<open>calculateUsingExact\<close> calls \<open>calculateUsingSimulation(playerHand, communityCards,
  stage, 100000)\<close>, four arguments for the three parameters \<open>(playerHand, communityCards,
  numSimulations)\<close>: the third parameter receives \<open>stage\<close>, and \<open>100000\<close> is bound to none.
\<close>

definition calculateUsingExact ::
  "(nat \<Rightarrow> rat) \<Rightarrow> Card list \<Rightarrow> Card list \<Rightarrow> string \<Rightarrow> ErrorCode + ProbabilityResult list" where
  "calculateUsingExact rnd playerHand communityCards stage =
     calculateUsingSimulation rnd playerHand communityCards (JStr stage)"

datatype CalculationMethod = auto | lookup | simulation | exact

definition calculateHandProbabilities ::
  "(nat \<Rightarrow> rat) \<Rightarrow> Card list \<Rightarrow> Card list \<Rightarrow> string \<Rightarrow> CalculationMethod
     \<Rightarrow> ErrorCode + ProbabilityResult list" where
  "calculateHandProbabilities rnd playerHand communityCards stage meth =
     (case meth of
        lookup \<Rightarrow> Inr (calculateUsingLookup playerHand communityCards)
      | simulation \<Rightarrow> calculateUsingSimulation rnd playerHand communityCards (JNum 10000)
      | exact \<Rightarrow> calculateUsingExact rnd playerHand communityCards stage
      | auto \<Rightarrow> Inr (calculateUsingLookup playerHand communityCards))"

text \<open>\<open>calculateOuts\<close>: the loop over the remaining cards, \<open>outs\<close> being its counter.\<close>

definition calculateOuts :: "Card list \<Rightarrow> Card list \<Rightarrow> HandStrength \<Rightarrow> ErrorCode + nat" where
  "calculateOuts playerHand communityCards targetHand =
     (let knownCards = playerHand @ communityCards
      in case getRemainingCards knownCards of
           Inl e \<Rightarrow> Inl e
         | Inr remainingCards \<Rightarrow>
             Inr (foldl (\<lambda>outs crd.
                           case evaluatePokerHand (knownCards @ [crd]) of
                             Inl e \<Rightarrow> outs
                           | Inr evaluation \<Rightarrow>
                               if strength_num (handStrength evaluation) \<ge> strength_num targetHand
                               then outs + 1 else outs)
                    0 remainingCards))"

section \<open>The entry point \<open>calculateProbabilities\<close> (poker-engine.ts)\<close>

record CalculationRequest =
  playerHand :: "Card list"
  communityCards :: "Card list"
  stage :: string
  preferredMethod :: "CalculationMethod option"

record CalculationResults =
  stage_r :: string
  playerHand_r :: "Card list"
  communityCards_r :: "Card list"
  probabilities :: "ProbabilityResult list"
  method_r :: CalculationMethod

definition determineOptimalMethod :: "CalculationRequest \<Rightarrow> CalculationMethod" where
  "determineOptimalMethod request =
     (case preferredMethod request of
        Some m \<Rightarrow>
          if m \<noteq> auto then m
          else if length (playerHand request) + length (communityCards request) \<le> 5 then lookup
          else if length (playerHand request) + length (communityCards request) \<ge> 6 then simulation
          else lookup
      | None \<Rightarrow>
          if length (playerHand request) + length (communityCards request) \<le> 5 then lookup
          else if length (playerHand request) + length (communityCards request) \<ge> 6 then simulation
          else lookup)"

definition calculateProbabilities ::
  "(nat \<Rightarrow> rat) \<Rightarrow> CalculationRequest \<Rightarrow> ErrorCode + CalculationResults" where
  "calculateProbabilities rnd request =
     (let validation = validatePokerHand (playerHand request) (communityCards request)
                         (stage request)
      in if \<not> isValid validation then Inl (firstErrorCode validation)
         else
           let m = determineOptimalMethod request
           in case calculateHandProbabilities rnd (playerHand request) (communityCards request)
                     (stage request) m of
                Inl e \<Rightarrow> Inl CALCULATION_FAILED
              | Inr probs \<Rightarrow>
                  Inr \<lparr> stage_r = stage request, playerHand_r = playerHand request,
                        communityCards_r = communityCards request,
                        probabilities = probs, method_r = m \<rparr>)"

section \<open>Concrete inputs\<close>

text \<open>The card \<open>createCard\<close> builds for a suit and a rank, and the inputs the examples use.\<close>

definition cardOf :: "Suit \<Rightarrow> Rank \<Rightarrow> Card" where
  "cardOf s r = \<lparr> suit = s, rank = r, value_c = CARD_VALUES r,
                   display = rank_str r @ SUIT_SYMBOLS s,
                   id_c = rank_str r @ SUIT_ABBREVIATIONS s \<rparr>"

definition sampleDeck :: Deck where
  "sampleDeck = \<lparr> availableCards = [cardOf spades RA, cardOf hearts RK, cardOf clubs R2],
                   usedCards = [cardOf diamonds RQ], totalCards = 52 \<rparr>"

definition pocketAces :: "Card list" where
  "pocketAces = [cardOf spades RA, cardOf hearts RA]"

definition lookupRequest :: CalculationRequest where
  "lookupRequest = \<lparr> playerHand = pocketAces, communityCards = [], stage = ''pre-flop'',
                      preferredMethod = Some lookup \<rparr>"

definition sampleFlop :: "Card list" where
  "sampleFlop = [cardOf clubs RA, cardOf diamonds RK, cardOf spades RQ]"

definition exactRequest :: CalculationRequest where
  "exactRequest = \<lparr> playerHand = pocketAces, communityCards = sampleFlop, stage = ''flop'',
                     preferredMethod = Some exact \<rparr>"

text \<open>The 52 cards in the order \<open>createDeck\<close> pushes them.\<close>

definition deckCards :: "Card list" where
  "deckCards = concat (map (\<lambda>s. map (cardOf s) RANKS) SUITS)"

definition eightCards :: "Card list" where
  "eightCards = [cardOf spades R2, cardOf hearts R3, cardOf clubs R4, cardOf diamonds R5,
                 cardOf spades R6, cardOf hearts R7, cardOf clubs R9, cardOf diamonds RJ]"

text \<open>The same six cards in two orders: the seven first, and the seven last.\<close>

definition sevenFirst :: "Card list" where
  "sevenFirst = [cardOf hearts R7, cardOf spades R2, cardOf hearts R3, cardOf clubs R4,
                 cardOf diamonds R5, cardOf spades R6]"

definition sevenLast :: "Card list" where
  "sevenLast = [cardOf spades R2, cardOf hearts R3, cardOf clubs R4, cardOf diamonds R5,
                cardOf spades R6, cardOf hearts R7]"

text \<open>A hand one card short of a flush in spades.\<close>

definition flushDrawHand :: "Card list" where
  "flushDrawHand = [cardOf spades RA, cardOf spades RK]"

definition flushDrawBoard :: "Card list" where
  "flushDrawBoard = [cardOf spades R2, cardOf spades R7, cardOf clubs R9]"

text \<open>A store holding \<open>sampleDeck\<close> at address 2, its two arrays at 0 and 1.\<close>

definition sampleStore :: Store where
  "sampleStore = [CardArray (availableCards sampleDeck), CardArray (usedCards sampleDeck),
                  DeckObj 0 1 52]"





section \<open>The category of a hand, read off its counts\<close>

text \<open>
  A second description of the category \<open>evaluateFiveCardHand\<close> decides. It looks only at
  how often each rank and each suit occurs among the cards and at which values and ranks
  occur, none of which depends on the order of the cards. The proofs relate the code to it.
\<close>

definition rankCount :: "Card list \<Rightarrow> Rank \<Rightarrow> nat" where
  "rankCount cards r = count_list (map rank cards) r"

definition suitCount :: "Card list \<Rightarrow> Suit \<Rightarrow> nat" where
  "suitCount cards s = count_list (map suit cards) s"

definition hasFlush :: "Card list \<Rightarrow> bool" where
  "hasFlush cards = list_ex (\<lambda>s. suitCount cards s \<ge> 5) SUITS"

definition hasRankCount :: "Card list \<Rightarrow> nat \<Rightarrow> bool" where
  "hasRankCount cards n = list_ex (\<lambda>r. rankCount cards r = n) RANKS"

definition hasTwoPairs :: "Card list \<Rightarrow> bool" where
  "hasTwoPairs cards = (length (filter (\<lambda>r. rankCount cards r = 2) RANKS) \<ge> 2)"

definition valuesDesc :: "Card list \<Rightarrow> int list" where
  "valuesDesc cards = sort_key (\<lambda>v. - v) (remdups (map value_c cards))"

definition hasRun :: "Card list \<Rightarrow> bool" where
  "hasRun cards =
     list_ex (\<lambda>i. valuesDesc cards ! i - valuesDesc cards ! (i + 4) = 4)
       [0 ..< length (valuesDesc cards) - 4]"

definition hasWheel :: "Card list \<Rightarrow> bool" where
  "hasWheel cards = list_all (\<lambda>r. r \<in> set (map rank cards)) [RA, R2, R3, R4, R5]"

definition hasRoyalRanks :: "Card list \<Rightarrow> bool" where
  "hasRoyalRanks cards = list_all (\<lambda>r. r \<in> set (map rank cards)) [RA, RK, RQ, RJ, R10]"

definition categoryOf :: "Card list \<Rightarrow> HandStrength" where
  "categoryOf cards =
     (if hasFlush cards \<and> hasRoyalRanks cards then ROYAL_FLUSH
      else if hasFlush cards \<and> (hasRun cards \<or> hasWheel cards) then STRAIGHT_FLUSH
      else if hasRankCount cards 4 then FOUR_OF_A_KIND
      else if hasRankCount cards 3 \<and> hasRankCount cards 2 then FULL_HOUSE
      else if hasFlush cards then FLUSH
      else if hasRun cards \<or> hasWheel cards then STRAIGHT
      else if hasRankCount cards 3 then THREE_OF_A_KIND
      else if hasTwoPairs cards then TWO_PAIR
      else if hasRankCount cards 2 then PAIR
      else HIGH_CARD)"






section \<open>Properties of the card utilities\<close>

lemma createCard_total: "createCard s r = Inr (cardOf s r)"
  by (cases s; cases r) (simp_all add: createCard_def cardOf_def SUITS_def RANKS_def)

text \<open>
  C6. For every suit and rank, parsing the id of the created card succeeds and gives back
  the created card, equal in suit, rank, value, display and id.
\<close>

theorem parseCard_createCard_roundtrip:
  "\<exists>c. createCard s r = Inr c \<and> parseCard (id_c c) = Inr c"
  by (cases s; cases r)
     (simp_all add: createCard_total cardOf_def parseCard_def startsWith_def charAt_def
        toUpperCase_def suitMap_def rank_of_token_def RANKS_def)

text \<open>
  C4, evaluated where it fails. Characters after the suit letter are never read:
  \<open>parseCard\<close> returns the ace of hearts for \<open>AHX\<close> and the ten of spades for \<open>10SS\<close>,
  strings that are not a rank token followed by one suit letter and nothing else.
\<close>

theorem parseCard_ignores_trailing_characters:
  "parseCard ''AHX'' = Inr (cardOf hearts RA) \<and> parseCard ''10SS'' = Inr (cardOf spades R10)"
  by (simp add: parseCard_def startsWith_def charAt_def toUpperCase_def suitMap_def
        rank_of_token_def RANKS_def createCard_total)

lemma truncate_le: "q \<le> of_nat k \<Longrightarrow> truncate_num q \<le> int k"
proof (cases "0 \<le> q")
  case True
  assume "q \<le> of_nat k"
  then have "\<lfloor>q\<rfloor> \<le> \<lfloor>of_nat k :: rat\<rfloor>" by (rule floor_mono)
  then show ?thesis using True by (simp add: truncate_num_def)
next
  case False
  then have "q \<le> of_int 0" by simp
  then have "\<lceil>q\<rceil> \<le> 0" by (simp only: ceiling_le_iff)
  then have "\<lceil>q\<rceil> \<le> int k" by linarith
  then show ?thesis unfolding truncate_num_def using False by (simp only: if_False)
qed

lemma truncate_of_int: "truncate_num (of_int i) = i"
  by (simp add: truncate_num_def)

lemma truncate_examples: "truncate_num (- 1) = - 1" "truncate_num (3 / 2) = 1"
proof -
  have "\<lceil>- 1 :: rat\<rceil> = - 1" by (simp add: ceiling_eq_iff)
  then show "truncate_num (- 1) = - 1" by (simp add: truncate_num_def)
  have "\<lfloor>3 / 2 :: rat\<rfloor> = 1" by (simp add: floor_eq_iff)
  then show "truncate_num (3 / 2) = 1" by (simp add: truncate_num_def)
qed

lemma slice_from_zero: "slice_from xs (Num 0) = 0"
  by (simp add: slice_from_def ToIntegerOrInfinity_def truncate_num_def)

lemma slice_from_count:
  assumes "\<not> greaterThan_js n (length xs)"
  shows "0 \<le> slice_from xs n
       \<and> nat (slice_from xs n) =
           (case n of
              Num q \<Rightarrow> if 0 \<le> truncate_num q then nat (truncate_num q)
                       else length xs - nat (- truncate_num q)
            | _ \<Rightarrow> 0)"
proof (cases n)
  case (Num q)
  then have "q \<le> of_nat (length xs)" using assms by (simp add: greaterThan_js_def)
  then have t: "truncate_num q \<le> int (length xs)" by (rule truncate_le)
  have s: "slice_from xs n =
      (if truncate_num q < 0 then max (int (length xs) + truncate_num q) 0
       else min (truncate_num q) (int (length xs)))"
    using Num by (simp add: slice_from_def ToIntegerOrInfinity_def Let_def)
  show ?thesis
  proof (cases "0 \<le> truncate_num q")
    case True
    then show ?thesis using s t Num by simp
  next
    case False
    then have "slice_from xs n = max (int (length xs) + truncate_num q) 0" using s by simp
    moreover have "nat (max (int (length xs) + truncate_num q) 0) = length xs - nat (- truncate_num q)"
      using False by arith
    ultimately show ?thesis using False Num by simp
  qed
next
  case NaN
  then show ?thesis by (simp add: slice_from_def ToIntegerOrInfinity_def)
next
  case Infinity
  then show ?thesis using assms by (simp add: greaterThan_js_def)
next
  case NegInfinity
  then show ?thesis by (simp add: slice_from_def ToIntegerOrInfinity_def)
qed

lemma dealCards_dealt:
  assumes "\<not> greaterThan_js n (length (availableCards deck))"
  shows "dealCards deck n =
     (let k = (case n of
                 Num q \<Rightarrow> if 0 \<le> truncate_num q then nat (truncate_num q)
                          else length (availableCards deck) - nat (- truncate_num q)
               | _ \<Rightarrow> 0)
      in Inr \<lparr> dealtCards = take k (availableCards deck),
               remainingDeck =
                 \<lparr> availableCards = drop k (availableCards deck),
                   usedCards = usedCards deck @ take k (availableCards deck),
                   totalCards = 52 \<rparr> \<rparr>)"
proof -
  define k where "k = (case n of
                 Num q \<Rightarrow> if 0 \<le> truncate_num q then nat (truncate_num q)
                          else length (availableCards deck) - nat (- truncate_num q)
               | _ \<Rightarrow> 0)"
  have "nat (slice_from (availableCards deck) n) = k"
    using slice_from_count [OF assms] by (simp add: k_def)
  then have "slice2 (availableCards deck) (Num 0) n = take k (availableCards deck)"
    and "slice1 (availableCards deck) n = drop k (availableCards deck)"
    by (simp_all add: slice2_def slice1_def slice_from_zero Let_def)
  then show ?thesis
    using assms by (simp add: dealCards_def Let_def k_def [symmetric])
qed

lemma readArray_append: "readArray s a = Some cs \<Longrightarrow> readArray (s @ t) a = Some cs"
  by (auto simp: readArray_def nth_append split: if_splits)

lemma readDeck_append: "readDeck s d = Some deck \<Longrightarrow> readDeck (s @ t) d = Some deck"
proof -
  assume r: "readDeck s d = Some deck"
  then obtain a u tc av us where d: "d < length s" "s ! d = DeckObj a u tc"
    and av: "readArray s a = Some av" and us: "readArray s u = Some us"
    and deck: "deck = \<lparr> availableCards = av, usedCards = us, totalCards = tc \<rparr>"
    by (auto simp: readDeck_def split: if_splits Obj.splits option.splits)
  show ?thesis
    using d deck readArray_append [OF av, of t] readArray_append [OF us, of t]
    by (simp add: readDeck_def nth_append)
qed

lemma dealCards_store_fails:
  assumes "readDeck s d = Some deck" "greaterThan_js n (length (availableCards deck))"
  shows "dealCards_store s d n = (Inl INSUFFICIENT_CARDS, s)"
  using assms by (simp add: dealCards_store_def)

lemma dealCards_store_deals:
  assumes r: "readDeck s d = Some deck"
    and n: "\<not> greaterThan_js n (length (availableCards deck))"
  shows "\<exists>t. dealCards_store s d n =
           (Inr \<lparr> dealtCardsRef = length s, remainingDeckRef = length s + 3 \<rparr>, s @ t)
         \<and> (s @ t) ! (length s + 3) = DeckObj (length s + 1) (length s + 2) 52
         \<and> map_option Inr
              (readResult (s @ t) \<lparr> dealtCardsRef = length s, remainingDeckRef = length s + 3 \<rparr>)
             = Some (dealCards deck n)"
proof -
  define dealt where "dealt = slice2 (availableCards deck) (Num 0) n"
  define t where "t = [CardArray dealt, CardArray (slice1 (availableCards deck) n),
                       CardArray (usedCards deck @ dealt), DeckObj (length s + 1) (length s + 2) 52]"
  have run: "dealCards_store s d n =
      (Inr \<lparr> dealtCardsRef = length s, remainingDeckRef = length s + 3 \<rparr>, s @ t)"
    using r n by (simp add: dealCards_store_def alloc_def Let_def t_def dealt_def)
  have at: "(s @ t) ! (length s + 3) = DeckObj (length s + 1) (length s + 2) 52"
    by (simp add: t_def nth_append)
  have a0: "readArray (s @ t) (length s) = Some dealt"
    by (simp add: readArray_def t_def nth_append)
  have a1: "readArray (s @ t) (length s + 1) = Some (slice1 (availableCards deck) n)"
    by (simp add: readArray_def t_def nth_append)
  have a2: "readArray (s @ t) (length s + 2) = Some (usedCards deck @ dealt)"
    by (simp add: readArray_def t_def nth_append)
  have "readDeck (s @ t) (length s + 3) =
          Some \<lparr> availableCards = slice1 (availableCards deck) n,
                 usedCards = usedCards deck @ dealt, totalCards = 52 \<rparr>"
    using at a1 a2 by (simp add: readDeck_def t_def)
  then have "map_option Inr
      (readResult (s @ t) \<lparr> dealtCardsRef = length s, remainingDeckRef = length s + 3 \<rparr>)
      = Some (dealCards deck n)"
    using a0 n by (simp add: readResult_def dealCards_def Let_def dealt_def)
  then show ?thesis using run at by blast
qed

text \<open>
  C9 as stated fails. The count is a number that nothing guards but the comparison with
  the number of available cards. \<open>-1\<close> does not exceed the three available cards of
  \<open>sampleDeck\<close>: the call succeeds, and \<open>slice(0, -1)\<close> deals all the available cards but
  the last, two cards, which are not the first \<open>-1\<close>. Nor does \<open>3/2\<close>: \<open>slice\<close> drops the
  fraction and one card is dealt.
\<close>

theorem dealCards_negative_count_counterexample:
  "\<not> ((- 1 :: rat) > of_nat (length (availableCards sampleDeck)))
   \<and> dealCards sampleDeck (Num (- 1)) =
       Inr \<lparr> dealtCards = [cardOf spades RA, cardOf hearts RK],
             remainingDeck =
               \<lparr> availableCards = [cardOf clubs R2],
                 usedCards = [cardOf diamonds RQ, cardOf spades RA, cardOf hearts RK],
                 totalCards = 52 \<rparr> \<rparr>
   \<and> int (length [cardOf spades RA, cardOf hearts RK]) \<noteq> - 1
   \<and> \<not> ((3 / 2 :: rat) > of_nat (length (availableCards sampleDeck)))
   \<and> dealCards sampleDeck (Num (3 / 2)) =
       Inr \<lparr> dealtCards = [cardOf spades RA],
             remainingDeck =
               \<lparr> availableCards = [cardOf hearts RK, cardOf clubs R2],
                 usedCards = [cardOf diamonds RQ, cardOf spades RA],
                 totalCards = 52 \<rparr> \<rparr>
   \<and> (of_nat (length [cardOf spades RA]) :: rat) \<noteq> 3 / 2"
  by (simp add: dealCards_def greaterThan_js_def sampleDeck_def slice2_def slice1_def
        slice_from_def ToIntegerOrInfinity_def truncate_examples truncate_of_int [of 0, simplified]
        Let_def)

text \<open>
  C9 as amended. For every deck and every number \<open>n\<close>, \<open>dealCards\<close> fails with
  \<open>INSUFFICIENT_CARDS\<close> exactly when \<open>n\<close> exceeds the number of available cards (\<open>NaN\<close>
  exceeds nothing). Otherwise it deals the first \<open>k\<close> available cards, where, \<open>t\<close> being
  \<open>n\<close> without its fraction, \<open>k\<close> is \<open>t\<close> when \<open>t\<close> is not negative and, when it is, the
  number of available cards less \<open>-t\<close>, or 0 when there are fewer; \<open>k\<close> is 0 for \<open>NaN\<close> and
  the negative infinity. So for a natural number \<open>n\<close> within the deck, the first \<open>n\<close> cards.
  The remaining deck has the other available cards, the old used cards followed by the
  dealt ones, and 52 as its total. Over a store holding the deck, the call changes no
  object of the store, the deck and its arrays among them: a failing call leaves the
  store as it was, and the arrays and the deck of a result are new objects.
\<close>

theorem dealCards_spec:
  assumes "readDeck s d = Some deck"
  shows "(let av = availableCards deck;
              exceeds = (case n of Num q \<Rightarrow> q > of_nat (length av) | NaN \<Rightarrow> False
                         | Infinity \<Rightarrow> True | NegInfinity \<Rightarrow> False);
              k = (case n of
                     Num q \<Rightarrow> if 0 \<le> truncate_num q then nat (truncate_num q)
                              else length av - nat (- truncate_num q)
                   | _ \<Rightarrow> 0)
          in ((dealCards deck n = Inl INSUFFICIENT_CARDS) = exceeds)
           \<and> (\<not> exceeds \<longrightarrow>
                dealCards deck n =
                  Inr \<lparr> dealtCards = take k av,
                        remainingDeck =
                          \<lparr> availableCards = drop k av, usedCards = usedCards deck @ take k av,
                            totalCards = 52 \<rparr> \<rparr>))
       \<and> (\<forall>i. 0 \<le> i \<and> i \<le> int (length (availableCards deck)) \<longrightarrow>
            dealCards deck (Num (of_int i)) =
              Inr \<lparr> dealtCards = take (nat i) (availableCards deck),
                    remainingDeck =
                      \<lparr> availableCards = drop (nat i) (availableCards deck),
                        usedCards = usedCards deck @ take (nat i) (availableCards deck),
                        totalCards = 52 \<rparr> \<rparr>)
       \<and> (case dealCards_store s d n of
            (r, s') \<Rightarrow>
              prefix s s' \<and> readDeck s' d = Some deck
              \<and> (case r of
                    Inl e \<Rightarrow> dealCards deck n = Inl e \<and> s' = s
                  | Inr refs \<Rightarrow>
                      map_option Inr (readResult s' refs) = Some (dealCards deck n)
                      \<and> length s \<le> dealtCardsRef refs \<and> length s \<le> remainingDeckRef refs
                      \<and> (\<exists>a u. s' ! remainingDeckRef refs = DeckObj a u 52
                                 \<and> length s \<le> a \<and> length s \<le> u)))"
proof -
  have ex: "(case n of Num q \<Rightarrow> q > of_nat (length (availableCards deck)) | NaN \<Rightarrow> False
              | Infinity \<Rightarrow> True | NegInfinity \<Rightarrow> False)
            = greaterThan_js n (length (availableCards deck))"
    by (simp add: greaterThan_js_def)
  have pure: "(let av = availableCards deck;
              exceeds = (case n of Num q \<Rightarrow> q > of_nat (length av) | NaN \<Rightarrow> False
                         | Infinity \<Rightarrow> True | NegInfinity \<Rightarrow> False);
              k = (case n of
                     Num q \<Rightarrow> if 0 \<le> truncate_num q then nat (truncate_num q)
                              else length av - nat (- truncate_num q)
                   | _ \<Rightarrow> 0)
          in ((dealCards deck n = Inl INSUFFICIENT_CARDS) = exceeds)
           \<and> (\<not> exceeds \<longrightarrow>
                dealCards deck n =
                  Inr \<lparr> dealtCards = take k av,
                        remainingDeck =
                          \<lparr> availableCards = drop k av, usedCards = usedCards deck @ take k av,
                            totalCards = 52 \<rparr> \<rparr>))"
  proof (cases "greaterThan_js n (length (availableCards deck))")
    case True
    then show ?thesis unfolding Let_def ex by (simp add: dealCards_def)
  next
    case False
    then show ?thesis
      unfolding Let_def ex using dealCards_dealt [OF False] by (simp add: Let_def)
  qed
  have nat: "\<forall>i. 0 \<le> i \<and> i \<le> int (length (availableCards deck)) \<longrightarrow>
            dealCards deck (Num (of_int i)) =
              Inr \<lparr> dealtCards = take (nat i) (availableCards deck),
                    remainingDeck =
                      \<lparr> availableCards = drop (nat i) (availableCards deck),
                        usedCards = usedCards deck @ take (nat i) (availableCards deck),
                        totalCards = 52 \<rparr> \<rparr>"
  proof (intro allI impI)
    fix i :: int
    assume i: "0 \<le> i \<and> i \<le> int (length (availableCards deck))"
    then have "(of_int i :: rat) \<le> of_nat (length (availableCards deck))"
      by (metis of_int_le_iff of_int_of_nat_eq)
    then have "\<not> greaterThan_js (Num (of_int i)) (length (availableCards deck))"
      by (simp add: greaterThan_js_def)
    then show "dealCards deck (Num (of_int i)) =
              Inr \<lparr> dealtCards = take (nat i) (availableCards deck),
                    remainingDeck =
                      \<lparr> availableCards = drop (nat i) (availableCards deck),
                        usedCards = usedCards deck @ take (nat i) (availableCards deck),
                        totalCards = 52 \<rparr> \<rparr>"
      using i dealCards_dealt [of "Num (of_int i)" deck] by (simp add: Let_def truncate_of_int)
  qed
  have store: "(case dealCards_store s d n of
            (r, s') \<Rightarrow>
              prefix s s' \<and> readDeck s' d = Some deck
              \<and> (case r of
                    Inl e \<Rightarrow> dealCards deck n = Inl e \<and> s' = s
                  | Inr refs \<Rightarrow>
                      map_option Inr (readResult s' refs) = Some (dealCards deck n)
                      \<and> length s \<le> dealtCardsRef refs \<and> length s \<le> remainingDeckRef refs
                      \<and> (\<exists>a u. s' ! remainingDeckRef refs = DeckObj a u 52
                                 \<and> length s \<le> a \<and> length s \<le> u)))"
  proof (cases "greaterThan_js n (length (availableCards deck))")
    case False
    obtain t where t: "dealCards_store s d n =
           (Inr \<lparr> dealtCardsRef = length s, remainingDeckRef = length s + 3 \<rparr>, s @ t)"
      "(s @ t) ! (length s + 3) = DeckObj (length s + 1) (length s + 2) 52"
      "map_option Inr
         (readResult (s @ t) \<lparr> dealtCardsRef = length s, remainingDeckRef = length s + 3 \<rparr>)
         = Some (dealCards deck n)"
      using dealCards_store_deals [OF assms False] by blast
    show ?thesis
      using t readDeck_append [OF assms, of t] by simp
  next
    case True
    then have "dealCards_store s d n = (Inl INSUFFICIENT_CARDS, s)"
      using assms by (intro dealCards_store_fails) auto
    then show ?thesis using True assms by (simp add: dealCards_def)
  qed
  show ?thesis using pure nat store by blast
qed

theorem dealCards_spec_witness:
  "readDeck sampleStore 2 = Some sampleDeck
   \<and> \<not> ((2 :: rat) > of_nat (length (availableCards sampleDeck)))
   \<and> (0 :: int) \<le> 2 \<and> (2 :: int) \<le> int (length (availableCards sampleDeck))
   \<and> dealCards sampleDeck (Num 2) =
       Inr \<lparr> dealtCards = [cardOf spades RA, cardOf hearts RK],
             remainingDeck =
               \<lparr> availableCards = [cardOf clubs R2],
                 usedCards = [cardOf diamonds RQ, cardOf spades RA, cardOf hearts RK],
                 totalCards = 52 \<rparr> \<rparr>
   \<and> prefix sampleStore (snd (dealCards_store sampleStore 2 (Num 2)))
   \<and> readDeck (snd (dealCards_store sampleStore 2 (Num 2))) 2 = Some sampleDeck"
proof -
  have r: "readDeck sampleStore 2 = Some sampleDeck"
    by (simp add: readDeck_def readArray_def sampleStore_def sampleDeck_def)
  have t: "truncate_num 2 = 2" by (simp add: truncate_num_def)
  show ?thesis
    using r dealCards_spec [OF r, of "Num 2"]
    by (auto simp: Let_def sampleDeck_def t split: prod.splits)
qed

subsection \<open>Validation\<close>

lemma cardErrors_codes:
  "code ` set (cardErrors seen c) \<subseteq>
     {DUPLICATE_CARD, INVALID_SUIT, INVALID_RANK, INVALID_VALUE, INVALID_DISPLAY, INVALID_ID}"
  by (auto simp: cardErrors_def Let_def)

lemma validateCards_loop_append:
  "validateCards_loop cards seen errs = errs @ validateCards_loop cards seen []"
proof (induction cards arbitrary: seen errs)
  case Nil
  show ?case by simp
next
  case (Cons c cards)
  have "validateCards_loop (c # cards) seen errs =
        (errs @ cardErrors seen c) @ validateCards_loop cards (insert (id_c c) seen) []"
    using Cons.IH [of "insert (id_c c) seen" "errs @ cardErrors seen c"] by simp
  moreover have "validateCards_loop (c # cards) seen [] =
        cardErrors seen c @ validateCards_loop cards (insert (id_c c) seen) []"
    using Cons.IH [of "insert (id_c c) seen" "cardErrors seen c"] by simp
  ultimately show ?case by simp
qed

lemma validateCards_loop_codes:
  "code ` set (validateCards_loop cards seen []) \<subseteq>
     {DUPLICATE_CARD, INVALID_SUIT, INVALID_RANK, INVALID_VALUE, INVALID_DISPLAY, INVALID_ID}"
proof (induction cards arbitrary: seen)
  case Nil
  show ?case by simp
next
  case (Cons c cards)
  have "validateCards_loop (c # cards) seen [] =
        cardErrors seen c @ validateCards_loop cards (insert (id_c c) seen) []"
    using validateCards_loop_append [of cards "insert (id_c c) seen" "cardErrors seen c"]
    by simp
  then show ?case
    using cardErrors_codes [of seen c] Cons.IH [of "insert (id_c c) seen"]
    by (simp add: image_Un)
qed

lemma validateCards_codes:
  "code ` set (errors (validateCards cards)) \<subseteq>
     {DUPLICATE_CARD, INVALID_SUIT, INVALID_RANK, INVALID_VALUE, INVALID_DISPLAY, INVALID_ID}"
  using validateCards_loop_codes [of cards "{}"] by (simp add: validateCards_def Let_def)

lemma validateCards_errors_if:
  "(if \<not> isValid (validateCards cards) then errors (validateCards cards) else []) =
     errors (validateCards cards)"
  by (simp add: validateCards_def Let_def)

lemma error_with_code: "\<exists>e::ValidationError. code e = c"
  by (rule exI [of _ "\<lparr> code = c, message = [], field = None \<rparr>"]) simp

lemma validatePokerHand_errors:
  "\<exists>e2 e3. code e2 = INVALID_PLAYER_HAND_SIZE \<and> code e3 = INVALID_COMMUNITY_CARDS
     \<and> errors (validatePokerHand ph cc st) =
         errors (validateCards (ph @ cc))
         @ (if st \<noteq> ''pre-flop'' \<and> length ph \<noteq> 2 then [e2] else [])
         @ (if \<exists>v. stageRequirements st = Some v \<and> strictNotEqual (length cc) v
            then [e3] else [])"
  by (cases "stageRequirements st")
     (simp_all add: validatePokerHand_def Let_def validateCards_errors_if error_with_code)

lemma stageRequirements_unfold:
  "stageRequirements st =
     (if st = ''pre-flop'' then Some (PNumber 0) else if st = ''flop'' then Some (PNumber 3)
      else if st = ''turn'' then Some (PNumber 4) else if st = ''river'' then Some (PNumber 5)
      else map_of Object_prototype st)"
  by (simp add: stageRequirements_def)

lemma inherited_not_number:
  "map_of Object_prototype st = Some v \<Longrightarrow> strictNotEqual n v"
  by (auto simp: Object_prototype_def strictNotEqual_def split: if_splits)

lemma inherited_iff:
  "(\<exists>v. map_of Object_prototype st = Some v \<and> strictNotEqual n v)
     = (st \<in> fst ` set Object_prototype)"
proof
  assume "\<exists>v. map_of Object_prototype st = Some v \<and> strictNotEqual n v"
  then show "st \<in> fst ` set Object_prototype" by (auto dest: map_of_SomeD intro: rev_image_eqI)
next
  assume "st \<in> fst ` set Object_prototype"
  then obtain v where "map_of Object_prototype st = Some v"
    by (cases "map_of Object_prototype st") (auto simp: map_of_eq_None_iff)
  then show "\<exists>v. map_of Object_prototype st = Some v \<and> strictNotEqual n v"
    using inherited_not_number by blast
qed

lemma communityError_iff:
  "(\<exists>v. stageRequirements st = Some v \<and> strictNotEqual (length cc) v) =
     (if st = ''pre-flop'' then length cc \<noteq> 0 else if st = ''flop'' then length cc \<noteq> 3
      else if st = ''turn'' then length cc \<noteq> 4 else if st = ''river'' then length cc \<noteq> 5
      else st \<in> fst ` set Object_prototype)"
  using inherited_iff [of st "length cc"]
  by (simp add: stageRequirements_unfold strictNotEqual_def)

text \<open>
  C7, with the stage where it fails. For every player hand, community cards and stage
  string, \<open>validatePokerHand\<close> reports \<open>INVALID_PLAYER_HAND_SIZE\<close> exactly when the stage is
  not pre-flop and the player hand has not exactly 2 cards, and the errors of
  \<open>validateCards\<close> on the player hand followed by the community cards come first in the
  list of errors. At the four stages it reports \<open>INVALID_COMMUNITY_CARDS\<close> exactly when
  the number of community cards differs from the required one. A stage that is none of
  the four has no required count, and the test against \<open>undefined\<close> is there to skip it,
  yet at a stage named like a property of \<open>Object.prototype\<close> the lookup finds the
  inherited property and the error is reported whatever the count: for pocket aces, no
  community cards and the stage \<open>constructor\<close>, where the hand is otherwise in order.
\<close>

theorem validatePokerHand_inherited_stage:
  "((INVALID_PLAYER_HAND_SIZE \<in> code ` set (errors (validatePokerHand ph cc st)))
      = (st \<noteq> ''pre-flop'' \<and> length ph \<noteq> 2))
   \<and> prefix (errors (validateCards (ph @ cc))) (errors (validatePokerHand ph cc st))
   \<and> ((INVALID_COMMUNITY_CARDS \<in> code ` set (errors (validatePokerHand ph cc st)))
        = (if st = ''pre-flop'' then length cc \<noteq> 0 else if st = ''flop'' then length cc \<noteq> 3
           else if st = ''turn'' then length cc \<noteq> 4 else if st = ''river'' then length cc \<noteq> 5
           else st \<in> fst ` set Object_prototype))
   \<and> validatePokerHand pocketAces [] ''constructor'' =
       \<lparr> isValid = False,
         errors = [\<lparr> code = INVALID_COMMUNITY_CARDS,
                     message = ''constructor stage requires function Object() { [native code] }''
                       @ '' community cards, got 0'',
                     field = None \<rparr>] \<rparr>"
proof -
  have nc: "INVALID_COMMUNITY_CARDS \<notin> code ` set (errors (validateCards (ph @ cc)))"
    using validateCards_codes [of "ph @ cc"] by auto
  have np: "INVALID_PLAYER_HAND_SIZE \<notin> code ` set (errors (validateCards (ph @ cc)))"
    using validateCards_codes [of "ph @ cc"] by auto
  obtain e2 e3 where c2: "code e2 = INVALID_PLAYER_HAND_SIZE"
    and c3: "code e3 = INVALID_COMMUNITY_CARDS"
    and errs: "errors (validatePokerHand ph cc st) =
       errors (validateCards (ph @ cc))
       @ (if st \<noteq> ''pre-flop'' \<and> length ph \<noteq> 2 then [e2] else [])
       @ (if \<exists>v. stageRequirements st = Some v \<and> strictNotEqual (length cc) v
          then [e3] else [])"
    using validatePokerHand_errors [of ph cc st] by blast
  have "(INVALID_COMMUNITY_CARDS \<in> code ` set (errors (validatePokerHand ph cc st)))
          = (\<exists>v. stageRequirements st = Some v \<and> strictNotEqual (length cc) v)"
    using nc by (auto simp: errs c2 c3 image_Un)
  then have community: "(INVALID_COMMUNITY_CARDS \<in> code ` set (errors (validatePokerHand ph cc st)))
        = (if st = ''pre-flop'' then length cc \<noteq> 0 else if st = ''flop'' then length cc \<noteq> 3
           else if st = ''turn'' then length cc \<noteq> 4 else if st = ''river'' then length cc \<noteq> 5
           else st \<in> fst ` set Object_prototype)"
    by (simp only: communityError_iff)
  have size: "(INVALID_PLAYER_HAND_SIZE \<in> code ` set (errors (validatePokerHand ph cc st)))
          = (st \<noteq> ''pre-flop'' \<and> length ph \<noteq> 2)"
    using np by (auto simp: errs c2 c3 image_Un)
  have first: "prefix (errors (validateCards (ph @ cc))) (errors (validatePokerHand ph cc st))"
    by (simp add: errs)
  have cards: "errors (validateCards (pocketAces @ [])) = []"
    by (simp add: validateCards_def pocketAces_def cardOf_def cardErrors_def SUITS_def RANKS_def)
  have at: "validatePokerHand pocketAces [] ''constructor'' =
       \<lparr> isValid = False,
         errors = [\<lparr> code = INVALID_COMMUNITY_CARDS,
                     message = ''constructor stage requires function Object() { [native code] }''
                       @ '' community cards, got 0'',
                     field = None \<rparr>] \<rparr>"
    using cards
    by (simp add: validatePokerHand_def Let_def validateCards_errors_if stageRequirements_def
          Object_prototype_def strictNotEqual_def show_property_def show_nat.simps
          pocketAces_def)
  show ?thesis using size first community at by blast
qed

section \<open>Properties of the probability estimator\<close>

lemma collect_map_Inr: "collect (map (\<lambda>x. Inr (f x)) xs) = Inr (map f xs)"
  by (induction xs) simp_all

lemma createDeck_eq:
  "createDeck = Inr \<lparr> availableCards = concat (map (\<lambda>s. map (cardOf s) RANKS) SUITS),
                       usedCards = [], totalCards = 52 \<rparr>"
proof -
  have "concat (map (\<lambda>s. map (\<lambda>r. createCard s r) RANKS) SUITS)
        = map (\<lambda>c. Inr c) (concat (map (\<lambda>s. map (cardOf s) RANKS) SUITS))"
    by (simp add: createCard_total map_concat o_def)
  then show ?thesis
    using collect_map_Inr [of "\<lambda>c. c" "concat (map (\<lambda>s. map (cardOf s) RANKS) SUITS)"]
    by (simp add: createDeck_def)
qed

lemma getRemainingCards_eq:
  "getRemainingCards known =
     Inr (filter (\<lambda>c. id_c c \<notin> set (map id_c known))
            (concat (map (\<lambda>s. map (cardOf s) RANKS) SUITS)))"
  by (simp add: getRemainingCards_def createDeck_eq)

subsection \<open>The lookup method on a pocket pair\<close>

lemma validateCards_pocketAces:
  "validateCards pocketAces = \<lparr> isValid = True, errors = [] \<rparr>"
  by (simp add: validateCards_def pocketAces_def cardOf_def cardErrors_def SUITS_def RANKS_def)

lemma validatePokerHand_lookupRequest:
  "validatePokerHand pocketAces [] ''pre-flop'' = \<lparr> isValid = True, errors = [] \<rparr>"
  by (simp add: validatePokerHand_def stageRequirements_def strictNotEqual_def
        validateCards_pocketAces)

lemma adjust_pocketAces:
  "adjustProbabilitiesForHand base pocketAces =
     (\<lambda>h. 0)(HIGH_CARD := 0, PAIR := 18 / 100, TWO_PAIR := 23 / 100,
             THREE_OF_A_KIND := 12 / 100, STRAIGHT := 4 / 100, FLUSH := 2 / 100,
             FULL_HOUSE := 25 / 1000, FOUR_OF_A_KIND := 2 / 1000,
             STRAIGHT_FLUSH := 1 / 10000, ROYAL_FLUSH := 1 / 1000000)"
  by (simp add: adjustProbabilitiesForHand_def pocketAces_def cardOf_def)

lemma calculateProbabilities_lookupRequest:
  "calculateProbabilities rnd lookupRequest =
     Inr \<lparr> stage_r = ''pre-flop'', playerHand_r = pocketAces, communityCards_r = [],
           probabilities = createProbabilityResults
             (adjustProbabilitiesForHand getBaseProbabilities pocketAces) 1000,
           method_r = lookup \<rparr>"
  by (simp add: calculateProbabilities_def lookupRequest_def determineOptimalMethod_def
        calculateHandProbabilities_def calculateUsingLookup_def
        validatePokerHand_lookupRequest Let_def)
     (simp add: pocketAces_def)

text \<open>
  C2, evaluated where it fails. The request of the contract test of the engine (the aces
  of spades and hearts, no community cards, stage pre-flop, method lookup) passes
  validation and returns ten probabilities, those of the one-pair table, and their sum is
  0.617101: further than 0.02 from 1.
\<close>

theorem lookup_one_pair_sum:
  "map_sum id (\<lambda>res. map probability (probabilities res))
       (calculateProbabilities rnd lookupRequest) =
     Inr (map Num [0, 18 / 100, 23 / 100, 12 / 100, 4 / 100, 2 / 100, 25 / 1000, 2 / 1000,
                   1 / 10000, 1 / 1000000])
   \<and> sum_list [0, 18 / 100, 23 / 100, 12 / 100, 4 / 100, 2 / 100, 25 / 1000, 2 / 1000,
               1 / 10000, 1 / 1000000] = (617101 / 1000000 :: rat)
   \<and> \<bar>617101 / 1000000 - 1\<bar> > (2 / 100 :: rat)"
  by (simp add: calculateProbabilities_lookupRequest createProbabilityResults_def
        adjust_pocketAces handTypes_def Let_def)

subsection \<open>The odds string\<close>

lemma createProbabilityResults_odds:
  "r \<in> set (createProbabilityResults probs n) \<Longrightarrow> odds r = formatOdds (probability r)"
  by (auto simp: createProbabilityResults_def Let_def)

lemma formatOdds_one: "formatOdds (Num 1) = ''1:1''"
  by (simp add: formatOdds_def)

lemma formatOdds_other:
  "q \<noteq> 0 \<Longrightarrow> q \<noteq> 1 \<Longrightarrow> formatOdds (Num q) = toFixed1 ((1 - q) / q) @ '':1''"
  by (simp add: formatOdds_def)

text \<open>
  C5, evaluated where it fails. For probability 0 \<open>formatOdds\<close> returns the string of the
  source file, the three characters U+00E2 U+02C6 U+017E followed by \<open>:1\<close>, which is not
  the infinity sign U+221E (bytes E2 88 9E) followed by \<open>:1\<close>; the lookup method returns
  it as the odds of High Card for a pocket pair. (For probability 1 and for every other
  probability the function does what the claim says: \<open>formatOdds_one\<close>,
  \<open>formatOdds_other\<close>.)
\<close>

theorem formatOdds_zero:
  "formatOdds (Num 0) = [CHR 0xC3, CHR 0xA2, CHR 0xCB, CHR 0x86, CHR 0xC5, CHR 0xBE] @ '':1''
   \<and> formatOdds (Num 0) \<noteq> [CHR 0xE2, CHR 0x88, CHR 0x9E] @ '':1''
   \<and> map_sum id (\<lambda>res. map (\<lambda>r. (handType r, probability r, odds r))
                          (take 1 (probabilities res)))
         (calculateProbabilities rnd lookupRequest) =
       Inr [(HIGH_CARD, Num 0,
             [CHR 0xC3, CHR 0xA2, CHR 0xCB, CHR 0x86, CHR 0xC5, CHR 0xBE] @ '':1'')]"
  by (simp add: calculateProbabilities_lookupRequest createProbabilityResults_def
        adjust_pocketAces handTypes_def Let_def formatOdds_def)

subsection \<open>The method \<open>exact\<close>\<close>

lemma replicate_10: "replicate 10 x = [x, x, x, x, x, x, x, x, x, x]"
  by (simp add: numeral_eq_Suc)

lemma dealCards_within:
  "n \<le> int (length (availableCards d)) \<Longrightarrow> \<exists>r. dealCards d (Num (of_int n)) = Inr r"
proof -
  assume "n \<le> int (length (availableCards d))"
  then have "(of_int n :: rat) \<le> of_int (int (length (availableCards d)))"
    by (simp only: of_int_le_iff)
  then have "\<not> greaterThan_js (Num (of_int n)) (length (availableCards d))"
    by (simp add: greaterThan_js_def)
  then show ?thesis by (simp add: dealCards_def Let_def)
qed

lemma simulate_loop_returns:
  "\<exists>sims. simulate_loop rnd known av m k acc = Inr sims"
proof (induction m arbitrary: k acc)
  case 0
  show ?case by simp
next
  case (Suc m)
  obtain sh k' where sh:
    "shuffleDeck rnd \<lparr> availableCards = av, usedCards = known, totalCards = 52 \<rparr> k = (sh, k')"
    by (cases "shuffleDeck rnd \<lparr> availableCards = av, usedCards = known, totalCards = 52 \<rparr> k")
       auto
  show ?case
  proof (cases "7 - int (length known) > 0")
    case True
    obtain d where
      "dealCards sh (Num (of_int (min (7 - int (length known))
                                      (int (length (availableCards sh)))))) = Inr d"
      using dealCards_within [of "min (7 - int (length known)) (int (length (availableCards sh)))" sh]
      by auto
    then show ?thesis
      using True sh Suc.IH [of k' "acc @ [known @ dealtCards d]"] by (simp add: Let_def)
  next
    case False
    then show ?thesis
      using sh Suc.IH [of k' "acc @ [known]"] by (simp add: Let_def)
  qed
qed

lemma calculateUsingExact_totalOutcomes:
  "\<exists>rs. calculateUsingExact rnd ph cc st = Inr rs
        \<and> map totalOutcomes rs = replicate 10 (JStr st)"
proof -
  have "\<exists>sims. simulateDeal rnd (ph @ cc) (JStr st) = Inr sims"
    unfolding simulateDeal_def getRemainingCards_eq by (simp add: simulate_loop_returns)
  then obtain sims where "simulateDeal rnd (ph @ cc) (JStr st) = Inr sims" ..
  then show ?thesis
    by (simp add: calculateUsingExact_def calculateUsingSimulation_def Let_def handTypes_def
          replicate_10)
qed

lemma validateCards_exactRequest:
  "validateCards (pocketAces @ sampleFlop) = \<lparr> isValid = True, errors = [] \<rparr>"
  by (simp add: validateCards_def pocketAces_def sampleFlop_def cardOf_def cardErrors_def
        SUITS_def RANKS_def)

lemma validatePokerHand_exactRequest:
  "validatePokerHand pocketAces sampleFlop ''flop'' = \<lparr> isValid = True, errors = [] \<rparr>"
  by (simp add: validatePokerHand_def stageRequirements_def strictNotEqual_def
        validateCards_exactRequest)
     (simp add: pocketAces_def sampleFlop_def)

lemma ToNumber_flop: "ToNumber (JStr ''flop'') = None"
  by (simp add: ToNumber_def)

text \<open>
  C1, evaluated where it fails. A valid request with the method \<open>exact\<close> (a pair of aces,
  a flop, stage flop) returns ten results whose \<open>totalOutcomes\<close> is the string
  \<open>flop\<close>, not the number 100000: no deal is simulated, every tally is 0 and every
  probability is \<open>NaN\<close>.
\<close>

theorem exact_passes_stage_as_sample_count:
  "map_sum id (\<lambda>res. map (\<lambda>r. (totalOutcomes r, probability r, occurrences r))
                         (probabilities res))
       (calculateProbabilities rnd exactRequest) =
     Inr (replicate 10 (JStr ''flop'', NaN, 0))
   \<and> JStr ''flop'' \<noteq> JNum 100000"
  by (simp add: calculateProbabilities_def exactRequest_def determineOptimalMethod_def
        calculateHandProbabilities_def calculateUsingExact_def calculateUsingSimulation_def
        simulateDeal_def getRemainingCards_eq ToNumber_flop divideCount_def
        handTypes_def validatePokerHand_exactRequest Let_def replicate_10)

section \<open>Properties of the hand evaluator\<close>

subsection \<open>The counting objects\<close>

lemma map_of_bump:
  "map_of (bump k kvs) k' =
     (if k' = k then Some (case map_of kvs k of None \<Rightarrow> 1 | Some n \<Rightarrow> n + 1)
      else map_of kvs k')"
  by (induction k kvs rule: bump.induct) auto

lemma keys_bump: "fst ` set (bump k kvs) = insert k (fst ` set kvs)"
  by (induction k kvs rule: bump.induct) auto

lemma map_of_foldl_bump:
  "map_of (foldl (\<lambda>counts x. bump (f x) counts) acc xs) k =
     (case map_of acc k of
        None \<Rightarrow> (if count_list (map f xs) k = 0 then None
                  else Some (count_list (map f xs) k))
      | Some n \<Rightarrow> Some (n + count_list (map f xs) k))"
proof (induction xs arbitrary: acc)
  case Nil
  show ?case by (simp split: option.splits)
next
  case (Cons x xs)
  show ?case
    using Cons.IH [of "bump (f x) acc"]
    by (simp add: map_of_bump split: option.splits)
qed

lemma keys_foldl_bump:
  "fst ` set (foldl (\<lambda>counts x. bump (f x) counts) acc xs) = fst ` set acc \<union> f ` set xs"
proof (induction xs arbitrary: acc)
  case Nil
  show ?case by simp
next
  case (Cons x xs)
  show ?case
    using Cons.IH [of "bump (f x) acc"] by (simp add: keys_bump)
qed

lemma map_of_countRanks:
  "map_of (countRanks cards) r =
     (if rankCount cards r = 0 then None else Some (rankCount cards r))"
  by (simp add: countRanks_def rankCount_def map_of_foldl_bump [of rank "[]" cards r])

lemma map_of_countSuits:
  "map_of (countSuits cards) s =
     (if suitCount cards s = 0 then None else Some (suitCount cards s))"
  by (simp add: countSuits_def suitCount_def map_of_foldl_bump [of suit "[]" cards s])

lemma keys_countRanks: "fst ` set (countRanks cards) = rank ` set cards"
  by (simp add: countRanks_def keys_foldl_bump [of rank "[]" cards])

lemma keys_countSuits: "fst ` set (countSuits cards) = suit ` set cards"
  by (simp add: countSuits_def keys_foldl_bump [of suit "[]" cards])

lemma set_Object_keys_rank: "set (Object_keys_rank obj) = fst ` set obj"
  by (auto simp: Object_keys_rank_def)

lemma rankCount_pos_iff: "(rankCount cards r = 0) = (r \<notin> rank ` set cards)"
  by (simp add: rankCount_def count_list_0_iff)

lemma suitCount_pos_iff: "(suitCount cards s = 0) = (s \<notin> suit ` set cards)"
  by (simp add: suitCount_def count_list_0_iff)

lemma all_ranks: "r \<in> set RANKS"
  by (cases r) (simp_all add: RANKS_def)

lemma all_suits: "s \<in> set SUITS"
  by (cases s) (simp_all add: SUITS_def)

lemma hasRankCount_iff: "hasRankCount cards n = (\<exists>r. rankCount cards r = n)"
  by (auto simp: hasRankCount_def list_ex_iff all_ranks)

lemma hasFlush_iff: "hasFlush cards = (\<exists>s. suitCount cards s \<ge> 5)"
  by (auto simp: hasFlush_def list_ex_iff all_suits)

lemma findRankWithCount_None:
  assumes "0 < n"
  shows "(findRankWithCount (countRanks cards) n = None) = (\<not> hasRankCount cards n)"
proof -
  have "(\<exists>r. r \<in> rank ` set cards \<and> map_of (countRanks cards) r = Some n)
        = (\<exists>r. rankCount cards r = n)"
  proof
    assume "\<exists>r. r \<in> rank ` set cards \<and> map_of (countRanks cards) r = Some n"
    then show "\<exists>r. rankCount cards r = n"
      by (auto simp: map_of_countRanks split: if_splits)
  next
    assume "\<exists>r. rankCount cards r = n"
    then obtain r where r: "rankCount cards r = n" ..
    then have "r \<in> rank ` set cards"
      using assms rankCount_pos_iff [of cards r] by auto
    then show "\<exists>r. r \<in> rank ` set cards \<and> map_of (countRanks cards) r = Some n"
      using r assms by (auto simp: map_of_countRanks)
  qed
  then show ?thesis
    by (simp add: findRankWithCount_def find_None_iff set_Object_keys_rank keys_countRanks
          hasRankCount_iff)
qed

lemma findRankWithCount_Some:
  "0 < n \<Longrightarrow> findRankWithCount (countRanks cards) n = Some r \<Longrightarrow> rankCount cards r = n"
  by (auto simp: findRankWithCount_def find_Some_iff map_of_countRanks split: if_splits)

subsection \<open>What each check returns\<close>

lemma checkFlush_None: "\<not> hasFlush xs \<Longrightarrow> checkFlush xs = Inr None"
proof -
  assume nf: "\<not> hasFlush xs"
  have "find (\<lambda>s. case map_of (countSuits xs) s of None \<Rightarrow> False | Some n \<Rightarrow> n \<ge> 5)
          (Object_keys_suit (countSuits xs)) = None"
    using nf
    by (auto simp: find_None_iff hasFlush_iff map_of_countSuits split: option.splits if_splits)
  then show ?thesis by (simp add: checkFlush_def)
qed

lemma checkFlush_Some:
  assumes "hasFlush xs"
  shows "\<exists>a. checkFlush xs = Inr (Some a) \<and> handStrength a = FLUSH"
proof -
  obtain s0 where s0: "suitCount xs s0 \<ge> 5"
    using assms by (auto simp: hasFlush_iff)
  then have "s0 \<in> suit ` set xs"
    using suitCount_pos_iff [of xs s0] by auto
  then have "s0 \<in> set (Object_keys_suit (countSuits xs))"
    by (simp add: Object_keys_suit_def keys_countSuits)
  moreover have "case map_of (countSuits xs) s0 of None \<Rightarrow> False | Some n \<Rightarrow> n \<ge> 5"
    using s0 by (simp add: map_of_countSuits)
  ultimately obtain s where s:
    "find (\<lambda>s. case map_of (countSuits xs) s of None \<Rightarrow> False | Some n \<Rightarrow> n \<ge> 5)
       (Object_keys_suit (countSuits xs)) = Some s"
    by (cases "find (\<lambda>s. case map_of (countSuits xs) s of None \<Rightarrow> False | Some n \<Rightarrow> n \<ge> 5)
                 (Object_keys_suit (countSuits xs))")
       (auto simp: find_None_iff)
  then have "case map_of (countSuits xs) s of None \<Rightarrow> False | Some n \<Rightarrow> n \<ge> 5"
    by (auto simp: find_Some_iff)
  then have "suitCount xs s \<ge> 5"
    by (auto simp: map_of_countSuits split: if_splits)
  then have "s \<in> suit ` set xs"
    using suitCount_pos_iff [of xs s] by auto
  then have "filter (\<lambda>c. suit c = s) xs \<noteq> []"
    by (auto simp: filter_empty_conv)
  then obtain c cs where "take 5 (filter (\<lambda>c. suit c = s) xs) = c # cs"
    by (cases "filter (\<lambda>c. suit c = s) xs") auto
  then show ?thesis
    using s by (simp add: checkFlush_def)
qed

lemma hasFlush_nonempty: "hasFlush xs \<Longrightarrow> xs \<noteq> []"
  by (auto simp: hasFlush_iff suitCount_def)

lemma valuesDesc_set: "set (valuesDesc xs) = value_c ` set xs"
  by (simp add: valuesDesc_def)

lemma list_ex_rank: "list_ex (\<lambda>c. rank c = r) xs = (r \<in> rank ` set xs)"
  by (auto simp: list_ex_iff)

lemma hasWheel_iff:
  "hasWheel xs =
     (list_ex (\<lambda>c. rank c = RA) xs \<and> list_ex (\<lambda>c. rank c = R2) xs
      \<and> list_ex (\<lambda>c. rank c = R3) xs \<and> list_ex (\<lambda>c. rank c = R4) xs
      \<and> list_ex (\<lambda>c. rank c = R5) xs)"
  by (simp add: hasWheel_def list_ex_rank)

lemma find_rank_Some: "r \<in> rank ` set xs \<Longrightarrow> \<exists>c. find (\<lambda>c. rank c = r) xs = Some c"
  by (cases "find (\<lambda>c. rank c = r) xs") (auto simp: find_None_iff)

lemma checkStraight_None:
  "\<not> hasRun xs \<Longrightarrow> \<not> hasWheel xs \<Longrightarrow> checkStraight xs = Inr None"
proof -
  assume nr: "\<not> hasRun xs" and nw: "\<not> hasWheel xs"
  have "find (\<lambda>i. valuesDesc xs ! i - valuesDesc xs ! (i + 4) = 4)
          [0 ..< length (valuesDesc xs) - 4] = None"
    using nr by (simp add: hasRun_def find_None_iff list_ex_iff)
  then show ?thesis
    using nw [unfolded hasWheel_iff]
    by (auto simp: checkStraight_def valuesDesc_def [symmetric] Let_def)
qed

lemma checkStraight_Some:
  assumes "hasRun xs \<or> hasWheel xs"
  shows "\<exists>a. checkStraight xs = Inr (Some a) \<and> handStrength a = STRAIGHT"
proof (cases "find (\<lambda>i. valuesDesc xs ! i - valuesDesc xs ! (i + 4) = 4)
                [0 ..< length (valuesDesc xs) - 4]")
  case (Some i)
  then have i: "i < length (valuesDesc xs)"
    and d: "valuesDesc xs ! i - valuesDesc xs ! (i + 4) = 4"
    by (auto simp: find_Some_iff)
  from i have "valuesDesc xs ! i \<in> value_c ` set xs"
    using valuesDesc_set [of xs] nth_mem [of i "valuesDesc xs"] by simp
  then obtain c0 where c0: "c0 \<in> set xs" "value_c c0 = valuesDesc xs ! i" by auto
  then have "valuesDesc xs ! (i + 4) \<le> value_c c0 \<and> value_c c0 \<le> valuesDesc xs ! i"
    using d by simp
  then have "filter (\<lambda>c. value_c c \<ge> valuesDesc xs ! (i + 4) \<and> value_c c \<le> valuesDesc xs ! i) xs
             \<noteq> []"
    using c0(1) by (auto simp: filter_empty_conv)
  then obtain c cs where
    "take 5 (filter (\<lambda>c. value_c c \<ge> valuesDesc xs ! (i + 4) \<and> value_c c \<le> valuesDesc xs ! i) xs)
       = c # cs"
    by (cases "filter (\<lambda>c. value_c c \<ge> valuesDesc xs ! (i + 4)
                           \<and> value_c c \<le> valuesDesc xs ! i) xs") auto
  then show ?thesis
    using Some by (simp add: checkStraight_def valuesDesc_def [symmetric] Let_def)
next
  case None
  then have "\<not> hasRun xs"
    by (simp add: hasRun_def find_None_iff list_ex_iff)
  then have w: "hasWheel xs" using assms by simp
  then have "RA \<in> rank ` set xs" "R2 \<in> rank ` set xs" "R3 \<in> rank ` set xs"
    "R4 \<in> rank ` set xs" "R5 \<in> rank ` set xs"
    by (simp_all add: hasWheel_def)
  then obtain c5 c4 c3 c2 ca where
    "find (\<lambda>c. rank c = R5) xs = Some c5" "find (\<lambda>c. rank c = R4) xs = Some c4"
    "find (\<lambda>c. rank c = R3) xs = Some c3" "find (\<lambda>c. rank c = R2) xs = Some c2"
    "find (\<lambda>c. rank c = RA) xs = Some ca"
    using find_rank_Some by metis
  then show ?thesis
    using None w unfolding hasWheel_iff
    by (simp add: checkStraight_def valuesDesc_def [symmetric] Let_def)
qed

lemma checkRoyalFlush_Some:
  assumes "hasFlush xs" "hasRoyalRanks xs"
  shows "\<exists>a. checkRoyalFlush xs = Inr (Some a) \<and> handStrength a = ROYAL_FLUSH"
proof -
  obtain f where "checkFlush xs = Inr (Some f)"
    using checkFlush_Some [OF assms(1)] by auto
  moreover obtain c cs where "xs = c # cs"
    using hasFlush_nonempty [OF assms(1)] by (cases xs) auto
  ultimately show ?thesis
    using assms(2) by (simp add: checkRoyalFlush_def hasRoyalRanks_def Let_def)
qed

lemma checkRoyalFlush_None:
  assumes "\<not> (hasFlush xs \<and> hasRoyalRanks xs)"
  shows "checkRoyalFlush xs = Inr None"
proof (cases "hasFlush xs")
  case False
  then show ?thesis by (simp add: checkRoyalFlush_def checkFlush_None)
next
  case True
  then obtain f where "checkFlush xs = Inr (Some f)"
    using checkFlush_Some by blast
  then show ?thesis
    using assms True by (auto simp: checkRoyalFlush_def hasRoyalRanks_def Let_def)
qed

lemma checkStraightFlush_Some:
  assumes "hasFlush xs" "hasRun xs \<or> hasWheel xs"
  shows "\<exists>a. checkStraightFlush xs = Inr (Some a) \<and> handStrength a = STRAIGHT_FLUSH"
proof -
  obtain f where "checkFlush xs = Inr (Some f)"
    using checkFlush_Some [OF assms(1)] by auto
  moreover obtain s where "checkStraight xs = Inr (Some s)"
    using checkStraight_Some [OF assms(2)] by auto
  moreover obtain c cs where "xs = c # cs"
    using hasFlush_nonempty [OF assms(1)] by (cases xs) auto
  ultimately show ?thesis
    by (simp add: checkStraightFlush_def)
qed

lemma checkStraightFlush_None:
  assumes "\<not> (hasFlush xs \<and> (hasRun xs \<or> hasWheel xs))"
  shows "checkStraightFlush xs = Inr None"
proof -
  obtain f where f: "checkFlush xs = Inr f" "(f = None) = (\<not> hasFlush xs)"
    using checkFlush_None [of xs] checkFlush_Some [of xs] by (cases "hasFlush xs") auto
  obtain s where s: "checkStraight xs = Inr s" "(s = None) = (\<not> (hasRun xs \<or> hasWheel xs))"
    using checkStraight_None [of xs] checkStraight_Some [of xs]
    by (cases "hasRun xs \<or> hasWheel xs") auto
  show ?thesis
    using assms f s by (auto simp: checkStraightFlush_def)
qed

lemma findRankWithCount_cases:
  assumes "0 < n"
  shows "(\<not> hasRankCount xs n \<and> findRankWithCount (countRanks xs) n = None)
       \<or> (hasRankCount xs n
          \<and> (\<exists>r. findRankWithCount (countRanks xs) n = Some r \<and> rankCount xs r = n))"
  using findRankWithCount_None [OF assms, of xs] findRankWithCount_Some [OF assms, of xs]
  by (cases "findRankWithCount (countRanks xs) n") auto

lemma rankCount_all: "\<forall>c\<in>set xs. rank c = r \<Longrightarrow> rankCount xs r = length xs"
  by (induction xs) (auto simp: rankCount_def)

lemma checkFourOfAKind_None: "\<not> hasRankCount xs 4 \<Longrightarrow> checkFourOfAKind xs = Inr None"
  using findRankWithCount_cases [of 4 xs] by (auto simp: checkFourOfAKind_def)

lemma checkFourOfAKind_Some:
  assumes "hasRankCount xs 4" "length xs = 5"
  shows "\<exists>a. checkFourOfAKind xs = Inr (Some a) \<and> handStrength a = FOUR_OF_A_KIND"
proof -
  obtain r where r: "findRankWithCount (countRanks xs) 4 = Some r" "rankCount xs r = 4"
    using findRankWithCount_cases [of 4 xs] assms(1) by auto
  have "\<not> (\<forall>c\<in>set xs. rank c = r)"
    using rankCount_all [of xs r] r(2) assms(2) by auto
  then obtain k where "find (\<lambda>c. rank c \<noteq> r) xs = Some k"
    by (cases "find (\<lambda>c. rank c \<noteq> r) xs") (auto simp: find_None_iff)
  then show ?thesis
    using r(1) by (simp add: checkFourOfAKind_def)
qed

lemma checkFullHouse_None:
  "\<not> (hasRankCount xs 3 \<and> hasRankCount xs 2) \<Longrightarrow> checkFullHouse xs = Inr None"
  using findRankWithCount_cases [of 3 xs] findRankWithCount_cases [of 2 xs]
  by (auto simp: checkFullHouse_def)

lemma checkFullHouse_Some:
  "hasRankCount xs 3 \<Longrightarrow> hasRankCount xs 2 \<Longrightarrow>
   \<exists>a. checkFullHouse xs = Inr (Some a) \<and> handStrength a = FULL_HOUSE"
  using findRankWithCount_cases [of 3 xs] findRankWithCount_cases [of 2 xs]
  by (auto simp: checkFullHouse_def)

lemma checkThreeOfAKind_None: "\<not> hasRankCount xs 3 \<Longrightarrow> checkThreeOfAKind xs = Inr None"
  using findRankWithCount_cases [of 3 xs] by (auto simp: checkThreeOfAKind_def)

lemma checkThreeOfAKind_Some:
  "hasRankCount xs 3 \<Longrightarrow>
   \<exists>a. checkThreeOfAKind xs = Inr (Some a) \<and> handStrength a = THREE_OF_A_KIND"
  using findRankWithCount_cases [of 3 xs] by (auto simp: checkThreeOfAKind_def Let_def)

lemma checkOnePair_None: "\<not> hasRankCount xs 2 \<Longrightarrow> checkOnePair xs = Inr None"
  using findRankWithCount_cases [of 2 xs] by (auto simp: checkOnePair_def)

lemma checkOnePair_Some:
  "hasRankCount xs 2 \<Longrightarrow> \<exists>a. checkOnePair xs = Inr (Some a) \<and> handStrength a = PAIR"
  using findRankWithCount_cases [of 2 xs] by (auto simp: checkOnePair_def Let_def)

lemma distinct_bump: "distinct (map fst kvs) \<Longrightarrow> distinct (map fst (bump k kvs))"
proof (induction k kvs rule: bump.induct)
  case (1 k)
  show ?case by simp
next
  case (2 k k' n kvs)
  then show ?case
    using keys_bump [of k kvs] by (auto simp: image_iff)
qed

lemma distinct_foldl_bump:
  "distinct (map fst acc) \<Longrightarrow>
   distinct (map fst (foldl (\<lambda>counts x. bump (f x) counts) acc xs))"
  by (induction xs arbitrary: acc) (simp_all add: distinct_bump)

lemma distinct_Object_keys_rank:
  "distinct (map fst obj) \<Longrightarrow> distinct (Object_keys_rank obj)"
  by (auto simp: Object_keys_rank_def distinct_filter)

lemma distinct_keys_countRanks: "distinct (Object_keys_rank (countRanks xs))"
  by (rule distinct_Object_keys_rank)
     (simp add: countRanks_def distinct_foldl_bump [of "[]" rank xs])

lemma distinct_RANKS: "distinct RANKS"
  by (simp add: RANKS_def)

lemma set_pairs:
  "set (filter (\<lambda>r. map_of (countRanks xs) r = Some 2) (Object_keys_rank (countRanks xs)))
     = {r. rankCount xs r = 2}"
proof -
  have "rankCount xs r = 2 \<Longrightarrow> r \<in> rank ` set xs" for r
    using rankCount_pos_iff [of xs r] by auto
  then show ?thesis
    by (auto simp: set_Object_keys_rank keys_countRanks map_of_countRanks split: if_splits)
qed

lemma set_sortDesc: "set (sortDesc xs) = set xs"
  by (simp add: sortDesc_def)

lemma length_pairs:
  "length (filter (\<lambda>r. map_of (countRanks xs) r = Some 2) (Object_keys_rank (countRanks xs)))
     = length (filter (\<lambda>r. rankCount xs r = 2) RANKS)"
proof -
  define ps where
    "ps = filter (\<lambda>r. map_of (countRanks xs) r = Some 2) (Object_keys_rank (countRanks xs))"
  define qs where "qs = filter (\<lambda>r. rankCount xs r = 2) RANKS"
  have "card (set ps) = length ps"
    by (rule distinct_card) (simp add: ps_def distinct_keys_countRanks)
  moreover have "set ps = {r. rankCount xs r = 2}"
    unfolding ps_def by (rule set_pairs)
  moreover have "card (set qs) = length qs"
    by (rule distinct_card) (simp add: qs_def distinct_RANKS)
  moreover have "set qs = {r. rankCount xs r = 2}"
    by (auto simp: qs_def all_ranks)
  ultimately have "length ps = length qs" by simp
  then show ?thesis by (simp add: ps_def qs_def)
qed

lemma checkTwoPair_None: "\<not> hasTwoPairs xs \<Longrightarrow> checkTwoPair xs = Inr None"
  by (simp add: checkTwoPair_def Let_def length_pairs hasTwoPairs_def)

lemma odd_length_other_rank:
  assumes "odd (length xs)"
  shows "\<exists>c\<in>set xs. rankCount xs (rank c) \<noteq> 2"
proof (rule ccontr)
  assume "\<not> (\<exists>c\<in>set xs. rankCount xs (rank c) \<noteq> 2)"
  then have two: "\<forall>r\<in>set (map rank xs). count_list (map rank xs) r = 2"
    by (auto simp: rankCount_def)
  have "length (map rank xs) = sum (count_list (map rank xs)) (set (map rank xs))"
    using sum_count_set [of "map rank xs" "set (map rank xs)"] by simp
  also have "\<dots> = sum (\<lambda>r. 2) (set (map rank xs))"
    using two by (intro sum.cong) auto
  also have "\<dots> = 2 * card (set (map rank xs))" by simp
  finally have "even (length xs)" by simp
  then show False using assms by simp
qed

lemma checkTwoPair_Some:
  assumes "hasTwoPairs xs" "length xs = 5"
  shows "\<exists>a. checkTwoPair xs = Inr (Some a) \<and> handStrength a = TWO_PAIR"
proof -
  define pairs where
    "pairs = filter (\<lambda>r. map_of (countRanks xs) r = Some 2) (Object_keys_rank (countRanks xs))"
  have len: "length pairs \<ge> 2"
    using assms(1) by (simp add: pairs_def length_pairs hasTwoPairs_def)
  then have "length (sort_key (\<lambda>r. - firstValue xs r) pairs) \<ge> 2" by simp
  then obtain p0 p1 ps where sp: "sort_key (\<lambda>r. - firstValue xs r) pairs = p0 # p1 # ps"
    by (cases "sort_key (\<lambda>r. - firstValue xs r) pairs" rule: list.exhaust [case_product list.exhaust])
       (auto simp del: length_sort; cases "tl (sort_key (\<lambda>r. - firstValue xs r) pairs)"; auto)+
  have "odd (length xs)" using assms(2) by simp
  then obtain c where "c \<in> set xs" "rankCount xs (rank c) \<noteq> 2"
    using odd_length_other_rank by blast
  then have "c \<in> set (filter (\<lambda>c. rank c \<notin> set (sort_key (\<lambda>r. - firstValue xs r) pairs)) xs)"
    using set_pairs [of xs] by (auto simp: pairs_def)
  then have "sortDesc (filter (\<lambda>c. rank c \<notin> set (sort_key (\<lambda>r. - firstValue xs r) pairs)) xs)
             \<noteq> []"
    using set_sortDesc
      [of "filter (\<lambda>c. rank c \<notin> set (sort_key (\<lambda>r. - firstValue xs r) pairs)) xs"]
    by (auto simp del: set_filter)
  then obtain k ks where
    "sortDesc (filter (\<lambda>c. rank c \<notin> set (sort_key (\<lambda>r. - firstValue xs r) pairs)) xs) = k # ks"
    by (cases "sortDesc (filter (\<lambda>c. rank c \<notin> set (sort_key (\<lambda>r. - firstValue xs r) pairs)) xs)")
       auto
  then show ?thesis
    using len sp unfolding pairs_def
    by (simp add: checkTwoPair_def Let_def)
qed

lemma highCard_Some:
  "xs \<noteq> [] \<Longrightarrow> \<exists>a. highCard (sortDesc xs) = Inr a \<and> handStrength a = HIGH_CARD"
proof -
  assume "xs \<noteq> []"
  then have "sortDesc xs \<noteq> []"
    using length_sort [of "\<lambda>c. - value_c c" xs] by (auto simp: sortDesc_def simp del: length_sort)
  then obtain c cs where "sortDesc xs = c # cs" by (cases "sortDesc xs") auto
  then show ?thesis by (simp add: highCard_def)
qed

subsection \<open>The category of five cards\<close>

lemma length_sortDesc: "length (sortDesc xs) = length xs"
  by (simp add: sortDesc_def)

lemma mset_sortDesc: "mset (sortDesc xs) = mset xs"
  by (simp add: sortDesc_def)

lemma evaluateFiveCardHand_category:
  assumes "length xs = 5"
  shows "\<exists>ev. evaluateFiveCardHand xs = Inr ev \<and> handStrength ev = categoryOf (sortDesc xs)"
proof -
  define ys where "ys = sortDesc xs"
  have len: "length ys = 5" using assms by (simp add: ys_def length_sortDesc)
  have ne: "xs \<noteq> []" using assms by auto
  have r1: "(hasFlush ys \<and> hasRoyalRanks ys
               \<and> (\<exists>a. checkRoyalFlush ys = Inr (Some a) \<and> handStrength a = ROYAL_FLUSH))
            \<or> (\<not> (hasFlush ys \<and> hasRoyalRanks ys) \<and> checkRoyalFlush ys = Inr None)"
    using checkRoyalFlush_Some [of ys] checkRoyalFlush_None [of ys] by blast
  have r2: "(hasFlush ys \<and> (hasRun ys \<or> hasWheel ys)
               \<and> (\<exists>a. checkStraightFlush ys = Inr (Some a) \<and> handStrength a = STRAIGHT_FLUSH))
            \<or> (\<not> (hasFlush ys \<and> (hasRun ys \<or> hasWheel ys))
               \<and> checkStraightFlush ys = Inr None)"
    using checkStraightFlush_Some [of ys] checkStraightFlush_None [of ys] by blast
  have r3: "(hasRankCount ys 4
               \<and> (\<exists>a. checkFourOfAKind ys = Inr (Some a) \<and> handStrength a = FOUR_OF_A_KIND))
            \<or> (\<not> hasRankCount ys 4 \<and> checkFourOfAKind ys = Inr None)"
    using checkFourOfAKind_Some [of ys] checkFourOfAKind_None [of ys] len by blast
  have r4: "(hasRankCount ys 3 \<and> hasRankCount ys 2
               \<and> (\<exists>a. checkFullHouse ys = Inr (Some a) \<and> handStrength a = FULL_HOUSE))
            \<or> (\<not> (hasRankCount ys 3 \<and> hasRankCount ys 2) \<and> checkFullHouse ys = Inr None)"
    using checkFullHouse_Some [of ys] checkFullHouse_None [of ys] by blast
  have r5: "(hasFlush ys \<and> (\<exists>a. checkFlush ys = Inr (Some a) \<and> handStrength a = FLUSH))
            \<or> (\<not> hasFlush ys \<and> checkFlush ys = Inr None)"
    using checkFlush_Some [of ys] checkFlush_None [of ys] by blast
  have r6: "((hasRun ys \<or> hasWheel ys)
               \<and> (\<exists>a. checkStraight ys = Inr (Some a) \<and> handStrength a = STRAIGHT))
            \<or> (\<not> (hasRun ys \<or> hasWheel ys) \<and> checkStraight ys = Inr None)"
    using checkStraight_Some [of ys] checkStraight_None [of ys] by blast
  have r7: "(hasRankCount ys 3
               \<and> (\<exists>a. checkThreeOfAKind ys = Inr (Some a) \<and> handStrength a = THREE_OF_A_KIND))
            \<or> (\<not> hasRankCount ys 3 \<and> checkThreeOfAKind ys = Inr None)"
    using checkThreeOfAKind_Some [of ys] checkThreeOfAKind_None [of ys] by blast
  have r8: "(hasTwoPairs ys
               \<and> (\<exists>a. checkTwoPair ys = Inr (Some a) \<and> handStrength a = TWO_PAIR))
            \<or> (\<not> hasTwoPairs ys \<and> checkTwoPair ys = Inr None)"
    using checkTwoPair_Some [of ys] checkTwoPair_None [of ys] len by blast
  have r9: "(hasRankCount ys 2
               \<and> (\<exists>a. checkOnePair ys = Inr (Some a) \<and> handStrength a = PAIR))
            \<or> (\<not> hasRankCount ys 2 \<and> checkOnePair ys = Inr None)"
    using checkOnePair_Some [of ys] checkOnePair_None [of ys] by blast
  have r10: "\<exists>a. highCard ys = Inr a \<and> handStrength a = HIGH_CARD"
    using highCard_Some [OF ne] by (simp add: ys_def)
  have "\<exists>ev. orElse (checkRoyalFlush ys)
        (orElse (checkStraightFlush ys)
        (orElse (checkFourOfAKind ys)
        (orElse (checkFullHouse ys)
        (orElse (checkFlush ys)
        (orElse (checkStraight ys)
        (orElse (checkThreeOfAKind ys)
        (orElse (checkTwoPair ys)
        (orElse (checkOnePair ys)
        (highCard ys))))))))) = Inr ev \<and> handStrength ev = categoryOf ys"
  proof (cases "hasFlush ys \<and> hasRoyalRanks ys")
    case True
    then show ?thesis using r1 by (auto simp: orElse_def categoryOf_def)
  next
    case n1: False
    then have c1: "checkRoyalFlush ys = Inr None" using r1 by blast
    show ?thesis
    proof (cases "hasFlush ys \<and> (hasRun ys \<or> hasWheel ys)")
      case True
      then show ?thesis using n1 c1 r2 by (auto simp: orElse_def categoryOf_def)
    next
      case n2: False
      then have c2: "checkStraightFlush ys = Inr None" using r2 by blast
      show ?thesis
      proof (cases "hasRankCount ys 4")
        case True
        then show ?thesis using n1 n2 c1 c2 r3 by (auto simp: orElse_def categoryOf_def)
      next
        case n3: False
        then have c3: "checkFourOfAKind ys = Inr None" using r3 by blast
        show ?thesis
        proof (cases "hasRankCount ys 3 \<and> hasRankCount ys 2")
          case True
          then show ?thesis
            using n1 n2 n3 c1 c2 c3 r4 by (auto simp: orElse_def categoryOf_def)
        next
          case n4: False
          then have c4: "checkFullHouse ys = Inr None" using r4 by blast
          show ?thesis
          proof (cases "hasFlush ys")
            case True
            then show ?thesis
              using n1 n2 n3 n4 c1 c2 c3 c4 r5 by (auto simp: orElse_def categoryOf_def)
          next
            case n5: False
            then have c5: "checkFlush ys = Inr None" using r5 by blast
            show ?thesis
            proof (cases "hasRun ys \<or> hasWheel ys")
              case True
              then show ?thesis
                using n3 n4 n5 c1 c2 c3 c4 c5 r6 by (auto simp: orElse_def categoryOf_def)
            next
              case n6: False
              then have c6: "checkStraight ys = Inr None" using r6 by blast
              show ?thesis
              proof (cases "hasRankCount ys 3")
                case True
                then show ?thesis
                  using n3 n4 n5 n6 c1 c2 c3 c4 c5 c6 r7
                  by (auto simp: orElse_def categoryOf_def)
              next
                case n7: False
                then have c7: "checkThreeOfAKind ys = Inr None" using r7 by blast
                show ?thesis
                proof (cases "hasTwoPairs ys")
                  case True
                  then show ?thesis
                    using n3 n5 n6 n7 c1 c2 c3 c4 c5 c6 c7 r8
                    by (auto simp: orElse_def categoryOf_def)
                next
                  case n8: False
                  then have c8: "checkTwoPair ys = Inr None" using r8 by blast
                  show ?thesis
                  proof (cases "hasRankCount ys 2")
                    case True
                    then show ?thesis
                      using n3 n5 n6 n7 n8 c1 c2 c3 c4 c5 c6 c7 c8 r9
                      by (auto simp: orElse_def categoryOf_def)
                  next
                    case n9: False
                    then have c9: "checkOnePair ys = Inr None" using r9 by blast
                    show ?thesis
                      using n3 n5 n6 n7 n8 n9 c1 c2 c3 c4 c5 c6 c7 c8 c9 r10
                      by (auto simp: orElse_def categoryOf_def)
                  qed
                qed
              qed
            qed
          qed
        qed
      qed
    qed
  qed
  then show ?thesis
    by (simp add: evaluateFiveCardHand_def ys_def [symmetric] Let_def)
qed

subsection \<open>The category does not depend on the order of the cards\<close>

lemma rankCount_mset: "mset xs = mset ys \<Longrightarrow> rankCount xs r = rankCount ys r"
proof -
  assume "mset xs = mset ys"
  then have m: "mset (map rank xs) = mset (map rank ys)" by (metis mset_map)
  show ?thesis by (simp only: rankCount_def count_mset [symmetric] m)
qed

lemma suitCount_mset: "mset xs = mset ys \<Longrightarrow> suitCount xs s = suitCount ys s"
proof -
  assume "mset xs = mset ys"
  then have m: "mset (map suit xs) = mset (map suit ys)" by (metis mset_map)
  show ?thesis by (simp only: suitCount_def count_mset [symmetric] m)
qed

lemma valuesDesc_set_eq:
  assumes "set xs = set ys"
  shows "valuesDesc xs = valuesDesc ys"
proof -
  have "mset (remdups (map value_c xs)) = mset_set (set (map value_c xs))"
    using mset_set_set [of "remdups (map value_c xs)"] by simp
  moreover have "mset (remdups (map value_c ys)) = mset_set (set (map value_c ys))"
    using mset_set_set [of "remdups (map value_c ys)"] by simp
  ultimately have "mset (remdups (map value_c xs)) = mset (remdups (map value_c ys))"
    using assms by simp
  then show ?thesis
    unfolding valuesDesc_def by (rule sort_key_eq_sort_key) (simp add: inj_on_def)
qed

lemma categoryOf_mset:
  assumes "mset xs = mset ys"
  shows "categoryOf xs = categoryOf ys"
proof -
  have s: "set xs = set ys" using assms by (rule mset_eq_setD)
  have "hasFlush xs = hasFlush ys"
    by (simp add: hasFlush_def suitCount_mset [OF assms])
  moreover have "hasRankCount xs n = hasRankCount ys n" for n
    by (simp add: hasRankCount_def rankCount_mset [OF assms])
  moreover have "hasTwoPairs xs = hasTwoPairs ys"
    by (simp add: hasTwoPairs_def rankCount_mset [OF assms])
  moreover have "hasRun xs = hasRun ys"
    by (simp add: hasRun_def valuesDesc_set_eq [OF s])
  moreover have "hasWheel xs = hasWheel ys"
    by (simp add: hasWheel_def s)
  moreover have "hasRoyalRanks xs = hasRoyalRanks ys"
    by (simp add: hasRoyalRanks_def s)
  ultimately show ?thesis by (simp add: categoryOf_def)
qed

lemma evaluateFiveCardHand_strength:
  assumes "length xs = 5"
  shows "\<exists>ev. evaluateFiveCardHand xs = Inr ev \<and> handStrength ev = categoryOf xs"
  using evaluateFiveCardHand_category [OF assms] categoryOf_mset [OF mset_sortDesc [of xs]]
  by simp

subsection \<open>The combinations and the best of them\<close>

lemma length_getCombinations: "c \<in> set (getCombinations xs k) \<Longrightarrow> length c = k"
  by (induction xs k arbitrary: c rule: getCombinations.induct) auto

lemma getCombinations_nonempty: "k \<le> length xs \<Longrightarrow> getCombinations xs k \<noteq> []"
  by (induction xs k rule: getCombinations.induct) auto





lemma Max_insert_max:
  "finite A \<Longrightarrow> Max (insert a (insert b A)) = Max (insert (max a b) (A::nat set))"
  using Max_insert by fastforce

lemma strength_num_inj: "strength_num a = strength_num b \<Longrightarrow> a = b"
  by (cases a; cases b) simp_all

lemma bestOf_strength:
  assumes "\<forall>c\<in>set combos. length c = 5"
  shows "\<exists>r. bestOf combos acc = Inr r
           \<and> map_option (\<lambda>b. strength_num (handStrength b)) r =
               (case acc of
                  None \<Rightarrow> (if combos = [] then None
                            else Some (Max ((\<lambda>c. strength_num (categoryOf c)) ` set combos)))
                | Some b \<Rightarrow>
                    Some (Max (insert (strength_num (handStrength b))
                                 ((\<lambda>c. strength_num (categoryOf c)) ` set combos))))"
  using assms
proof (induction combos arbitrary: acc)
  case Nil
  show ?case by (simp split: option.splits)
next
  case (Cons c cs)
  then have len: "length c = 5" and rest: "\<forall>c\<in>set cs. length c = 5" by auto
  obtain ev where ev: "evaluateFiveCardHand c = Inr ev" "handStrength ev = categoryOf c"
    using evaluateFiveCardHand_strength [OF len] by auto
  define acc' where
    "acc' = (case acc of
               None \<Rightarrow> Some ev
             | Some best \<Rightarrow>
                 if strength_num (handStrength ev) > strength_num (handStrength best)
                 then Some ev
                 else if handStrength ev = handStrength best
                 then (if compareHands ev best > 0 then Some ev else Some best)
                 else Some best)"
  have step: "bestOf (c # cs) acc = bestOf cs acc'"
    by (simp add: ev(1) acc'_def)
  have "\<exists>b'. acc' = Some b'
          \<and> strength_num (handStrength b') =
                (case acc of None \<Rightarrow> strength_num (categoryOf c)
                 | Some b \<Rightarrow> max (strength_num (categoryOf c)) (strength_num (handStrength b)))"
  proof (cases acc)
    case None
    then show ?thesis by (simp add: acc'_def ev(2))
  next
    case (Some best)
    consider "strength_num (handStrength ev) > strength_num (handStrength best)"
      | "handStrength ev = handStrength best"
      | "strength_num (handStrength ev) < strength_num (handStrength best)"
      using strength_num_inj [of "handStrength ev" "handStrength best"] by fastforce
    then show ?thesis
    proof cases
      case 1
      then show ?thesis using Some by (simp add: acc'_def ev(2) [symmetric])
    next
      case 2
      then show ?thesis using Some by (simp add: acc'_def ev(2) [symmetric])
    next
      case 3
      then have "handStrength ev \<noteq> handStrength best" by auto
      then show ?thesis using Some 3 by (simp add: acc'_def ev(2) [symmetric])
    qed
  qed
  then obtain b' where b': "acc' = Some b'"
    and sb': "strength_num (handStrength b') =
                (case acc of None \<Rightarrow> strength_num (categoryOf c)
                 | Some b \<Rightarrow> max (strength_num (categoryOf c)) (strength_num (handStrength b)))"
    by auto
  obtain r where r: "bestOf cs acc' = Inr r"
    "map_option (\<lambda>b. strength_num (handStrength b)) r =
       Some (Max (insert (strength_num (handStrength b'))
                    ((\<lambda>c. strength_num (categoryOf c)) ` set cs)))"
    using Cons.IH [OF rest, of acc'] by (auto simp: b')
  show ?case
  proof (cases acc)
    case None
    then show ?thesis using step r sb' by simp
  next
    case (Some b)
    have "Max (insert (max (strength_num (categoryOf c)) (strength_num (handStrength b)))
                 ((\<lambda>c. strength_num (categoryOf c)) ` set cs))
          = Max (insert (strength_num (categoryOf c)) (insert (strength_num (handStrength b))
                 ((\<lambda>c. strength_num (categoryOf c)) ` set cs)))"
      by (rule Max_insert_max [symmetric]) simp
    then show ?thesis
      using Some step r sb' by (simp add: insert_commute)
  qed
qed

lemma findBestFiveCardHand_strength:
  assumes "5 \<le> length xs"
  shows "\<exists>b. findBestFiveCardHand xs = Inr b
           \<and> strength_num (handStrength b) =
               Max ((\<lambda>c. strength_num (categoryOf c)) ` set (getCombinations xs 5))"
proof -
  have "\<forall>c\<in>set (getCombinations xs 5). length c = 5"
    by (simp add: length_getCombinations)
  then obtain r where r: "bestOf (getCombinations xs 5) None = Inr r"
    "map_option (\<lambda>b. strength_num (handStrength b)) r =
       Some (Max ((\<lambda>c. strength_num (categoryOf c)) ` set (getCombinations xs 5)))"
    using bestOf_strength [of "getCombinations xs 5" None] getCombinations_nonempty [OF assms]
    by auto
  then obtain b where "r = Some b" by (cases r) auto
  then show ?thesis using r by (simp add: findBestFiveCardHand_def)
qed


lemma evaluatePokerHand_returns:
  assumes "5 \<le> length xs"
  shows "\<exists>ev. evaluatePokerHand xs = Inr ev"
proof (cases "length xs = 5")
  case True
  then show ?thesis
    using evaluateFiveCardHand_strength [OF True] by (auto simp: evaluatePokerHand_def)
next
  case False
  then show ?thesis
    using assms findBestFiveCardHand_strength [OF assms] by (auto simp: evaluatePokerHand_def)
qed


subsection \<open>More than seven cards\<close>

text \<open>
  C10. For every list of more than 7 cards (structurally valid and distinct or not) the
  entry point \<open>evaluateHand\<close> fails with \<open>TOO_MANY_CARDS\<close>, although the inner routine
  \<open>evaluatePokerHand\<close> returns an evaluation for that list, as it does for every list of
  at least 5 cards.
\<close>

theorem evaluateHand_too_many_cards:
  assumes "length cards > 7"
  shows "evaluateHand cards = Inl TOO_MANY_CARDS \<and> (\<exists>ev. evaluatePokerHand cards = Inr ev)"
proof -
  have "5 \<le> length cards" using assms by simp
  then have "\<exists>ev. evaluatePokerHand cards = Inr ev" by (rule evaluatePokerHand_returns)
  moreover have "evaluateHand cards = Inl TOO_MANY_CARDS"
    using assms
    by (simp add: evaluateHand_def validateHandForEvaluation_def firstErrorCode_def Let_def)
  ultimately show ?thesis by simp
qed

theorem evaluateHand_too_many_cards_witness:
  "length eightCards > 7 \<and> evaluateHand eightCards = Inl TOO_MANY_CARDS
   \<and> (\<exists>ev. evaluatePokerHand eightCards = Inr ev)"
  using evaluateHand_too_many_cards [of eightCards] by (simp add: eightCards_def)

subsection \<open>Outs\<close>

lemma createDeck_deckCards:
  "createDeck = Inr \<lparr> availableCards = deckCards, usedCards = [], totalCards = 52 \<rparr>"
  by (simp add: createDeck_eq deckCards_def)

lemma length_deckCards: "length deckCards = 52"
  by (simp add: deckCards_def SUITS_def RANKS_def)

lemma distinct_ids_deckCards: "distinct (map id_c deckCards)"
  by (simp add: deckCards_def SUITS_def RANKS_def cardOf_def)

lemma distinct_deckCards: "distinct deckCards"
  using distinct_ids_deckCards by (rule distinct_map [THEN iffD1, THEN conjunct1])

lemma foldl_count:
  "foldl (\<lambda>outs c. if P c then outs + 1 else outs) n xs = n + length (filter P xs)"
  by (induction xs arbitrary: n) simp_all

lemma length_filter_ids:
  assumes "K \<subseteq> id_c ` set deckCards"
  shows "length (filter (\<lambda>c. id_c c \<in> K) deckCards) = card K"
proof -
  have "length (filter (\<lambda>c. id_c c \<in> K) deckCards)
        = length (filter (\<lambda>i. i \<in> K) (map id_c deckCards))"
    by (simp add: filter_map o_def)
  also have "\<dots> = card (set (filter (\<lambda>i. i \<in> K) (map id_c deckCards)))"
    by (rule distinct_card [symmetric]) (simp add: distinct_ids_deckCards)
  also have "set (filter (\<lambda>i. i \<in> K) (map id_c deckCards)) = K"
    using assms by auto
  finally show ?thesis .
qed

text \<open>
  C8. \<open>calculateOuts\<close> returns the number of cards of the 52-card deck whose id is not the
  id of a known card and which, put after the known cards, make \<open>evaluatePokerHand\<close>
  return a strength at least the target; a card for which the evaluation fails is not
  counted. When the known cards carry ids of the deck, the result is at most 52 minus
  the number of distinct known ids.
\<close>

theorem calculateOuts_spec:
  "\<exists>outs. calculateOuts ph cc target = Inr outs
     \<and> outs = card {c \<in> set deckCards.
                    id_c c \<notin> id_c ` set (ph @ cc)
                    \<and> (\<exists>ev. evaluatePokerHand (ph @ cc @ [c]) = Inr ev
                             \<and> strength_num target \<le> strength_num (handStrength ev))}
     \<and> (id_c ` set (ph @ cc) \<subseteq> id_c ` set deckCards
          \<longrightarrow> outs \<le> 52 - card (id_c ` set (ph @ cc)))"
proof -
  define K where "K = id_c ` set (ph @ cc)"
  define P where
    "P = (\<lambda>c. \<exists>ev. evaluatePokerHand (ph @ cc @ [c]) = Inr ev
                  \<and> strength_num target \<le> strength_num (handStrength ev))"
  define rem where "rem = filter (\<lambda>c. id_c c \<notin> K) deckCards"
  have step: "(\<lambda>outs crd. case evaluatePokerHand ((ph @ cc) @ [crd]) of
                  Inl e \<Rightarrow> outs
                | Inr evaluation \<Rightarrow>
                    if strength_num (handStrength evaluation) \<ge> strength_num target
                    then outs + 1 else outs)
              = (\<lambda>outs c. if P c then outs + (1::nat) else outs)"
    by (auto simp: fun_eq_iff P_def split: sum.splits)
  have outs: "calculateOuts ph cc target = Inr (length (filter P rem))"
    unfolding calculateOuts_def Let_def getRemainingCards_def createDeck_deckCards step
    by (simp add: foldl_count rem_def K_def image_Un)
  have "length (filter P rem) = card (set (filter P rem))"
    by (rule distinct_card [symmetric]) (simp add: rem_def distinct_deckCards)
  also have "set (filter P rem) = {c \<in> set deckCards. id_c c \<notin> K \<and> P c}"
    by (auto simp: rem_def)
  finally have cnt: "length (filter P rem) = card {c \<in> set deckCards. id_c c \<notin> K \<and> P c}" .
  have bound: "length (filter P rem) \<le> 52 - card K" if sub: "K \<subseteq> id_c ` set deckCards"
  proof -
    have "length (filter (\<lambda>c. id_c c \<in> K) deckCards) + length rem = length deckCards"
      unfolding rem_def by (rule sum_length_filter_compl)
    then have "length rem = 52 - card K"
      using length_filter_ids [OF sub] length_deckCards by simp
    moreover have "length (filter P rem) \<le> length rem" by (rule length_filter_le)
    ultimately show ?thesis by simp
  qed
  show ?thesis
    using outs cnt bound unfolding K_def P_def by simp
qed

theorem calculateOuts_spec_witness:
  "id_c ` set (flushDrawHand @ flushDrawBoard) \<subseteq> id_c ` set deckCards
   \<and> (\<exists>outs. calculateOuts flushDrawHand flushDrawBoard FLUSH = Inr outs \<and> outs \<le> 47)"
proof -
  have sub: "id_c ` set (flushDrawHand @ flushDrawBoard) \<subseteq> id_c ` set deckCards"
    by (simp add: flushDrawHand_def flushDrawBoard_def deckCards_def SUITS_def RANKS_def
          cardOf_def)
  have "card (id_c ` set (flushDrawHand @ flushDrawBoard)) = 5"
    by (simp add: flushDrawHand_def flushDrawBoard_def cardOf_def)
  then show ?thesis
    using sub calculateOuts_spec [of flushDrawHand flushDrawBoard FLUSH] by auto
qed

subsection \<open>Five valid cards in two orders\<close>













































lemma orElse_Some: "orElse (Inr (Some a)) rest = Inr a"
  by (simp add: orElse_def)




subsection \<open>The order of the cards\<close>

text \<open>
  \<open>compareHands\<close> tells two hands of one category apart by the values of their kickers
  alone, and a straight has no kickers. Of the six cards 2 to 7 in mixed suits, which hold
  the straight to the seven and the straight to the six, \<open>findBestFiveCardHand\<close> therefore
  keeps the straight it meets first: the one to the six when the seven is the first card,
  which is not the best 5-card hand that its comment announces.
\<close>

lemma evaluate_sevenFirst:
  "map_sum id (\<lambda>e. (handStrength e, description e, map id_c (bestHand e)))
     (evaluatePokerHand sevenFirst) =
   Inr (STRAIGHT, ''Straight, 6'' @ [CHR 0xE2, CHR 0x99, CHR 0xA0] @ '' high'',
        [''6S'', ''5D'', ''4C'', ''3H'', ''2S''])"
  by code_simp

lemma evaluate_sevenLast:
  "map_sum id (\<lambda>e. (handStrength e, description e, map id_c (bestHand e)))
     (evaluatePokerHand sevenLast) =
   Inr (STRAIGHT, ''Straight, 7'' @ [CHR 0xE2, CHR 0x99, CHR 0xA5] @ '' high'',
        [''7H'', ''6S'', ''5D'', ''4C'', ''3H''])"
  by code_simp














end
